theory Spec2Isabelle
  imports Complex_Main "HOL-Library.Multiset"
begin

section \<open>Data model\<close>

text \<open>
  The application state is the object \<^verbatim>\<open>db = { branches, items, transactions }\<close>.
  A JavaScript number is a binary64 value; a stored quantity is the real number it
  denotes. The definitions of the first sections compute with exact real arithmetic,
  which leaves out the rounding of each operation; the section on binary64 arithmetic
  models that rounding and runs \<^verbatim>\<open>getCurrentStock\<close>, \<^verbatim>\<open>avgUsageForItem\<close> and
  \<^verbatim>\<open>suggestedOrderQty\<close> with it. An absent object field (\<^verbatim>\<open>undefined\<close>) is
  \<open>None\<close>. Strings stay strings: the transaction
  type is the discriminator string the code compares against, and a date is the ISO text
  the code slices and parses.
\<close>

record branch =
  b_id :: string
  b_name :: string

record item =
  i_id :: string
  i_name :: string
  category :: string
  unit :: string
  minStock :: real
  preferredOrder :: real
  leadTime :: "real option"
  unitCost :: "real option"
  storage :: string

record tx =
  t_id :: string
  t_type :: string
  itemId :: string
  qty :: real
  date :: string
  t_notes :: string
  branchId :: "string option"
  branchFrom :: "string option"
  branchTo :: "string option"

record db =
  branches :: "branch list"
  items :: "item list"
  transactions :: "tx list"

section \<open>Numeric built-ins\<close>

text \<open>\<^verbatim>\<open>Math.round(x)\<close> rounds to the nearest integer, ties towards plus infinity.\<close>

definition mathRound :: "real \<Rightarrow> int" where
  "mathRound x = \<lfloor>x + 1 / 2\<rfloor>"

section \<open>Current stock\<close>

text \<open>
  The body of the \<^verbatim>\<open>forEach\<close> callback of \<^verbatim>\<open>getCurrentStock\<close>: an early return for
  another item, then five independent \<^verbatim>\<open>if\<close> statements updating \<^verbatim>\<open>stock\<close> in turn.
\<close>

definition stockStep :: "string \<Rightarrow> string \<Rightarrow> tx \<Rightarrow> real \<Rightarrow> real" where
  "stockStep branchIdArg itemIdArg t stock =
     (if itemId t \<noteq> itemIdArg then stock
      else
        let s1 = (if t_type t = ''receive'' \<and> branchId t = Some branchIdArg then stock + qty t else stock);
            s2 = (if t_type t = ''transfer'' \<and> branchTo t = Some branchIdArg then s1 + qty t else s1);
            s3 = (if t_type t = ''use'' \<and> branchId t = Some branchIdArg then s2 - qty t else s2);
            s4 = (if t_type t = ''wastage'' \<and> branchId t = Some branchIdArg then s3 - qty t else s3);
            s5 = (if t_type t = ''transfer'' \<and> branchFrom t = Some branchIdArg then s4 - qty t else s4)
        in s5)"

text \<open>The value of \<^verbatim>\<open>stock\<close> when the loop over \<^verbatim>\<open>db.transactions\<close> ends.\<close>

definition stockLoop :: "tx list \<Rightarrow> string \<Rightarrow> string \<Rightarrow> real" where
  "stockLoop txs branchIdArg itemIdArg = fold (stockStep branchIdArg itemIdArg) txs 0"

definition getCurrentStock :: "db \<Rightarrow> string \<Rightarrow> string \<Rightarrow> real" where
  "getCurrentStock d branchIdArg itemIdArg =
     (let stock = stockLoop (transactions d) branchIdArg itemIdArg
      in max 0 (of_int (mathRound (stock * 100)) / 100))"

section \<open>Item management and the ledger append\<close>

text \<open>
  \<^verbatim>\<open>id(prefix)\<close> glues a random suffix to the prefix; the suffix drawn from
  \<^verbatim>\<open>Math.random()\<close> is an input of the model.
\<close>

definition mkId :: "string \<Rightarrow> string \<Rightarrow> string" where
  "mkId prefix r = prefix @ ''_'' @ r"

text \<open>
  The patch of \<^verbatim>\<open>updateItem\<close> is an object holding any subset of the item fields; the
  spread \<^verbatim>\<open>{ ...it, ...patch }\<close> overwrites exactly the fields the patch holds.
\<close>

record patch =
  p_id :: "string option"
  p_name :: "string option"
  p_category :: "string option"
  p_unit :: "string option"
  p_minStock :: "real option"
  p_preferredOrder :: "real option"
  p_leadTime :: "real option"
  p_unitCost :: "real option"
  p_storage :: "string option"

definition spread :: "item \<Rightarrow> patch \<Rightarrow> item" where
  "spread it p =
     \<lparr>i_id = (case p_id p of None \<Rightarrow> i_id it | Some v \<Rightarrow> v),
      i_name = (case p_name p of None \<Rightarrow> i_name it | Some v \<Rightarrow> v),
      category = (case p_category p of None \<Rightarrow> category it | Some v \<Rightarrow> v),
      unit = (case p_unit p of None \<Rightarrow> unit it | Some v \<Rightarrow> v),
      minStock = (case p_minStock p of None \<Rightarrow> minStock it | Some v \<Rightarrow> v),
      preferredOrder = (case p_preferredOrder p of None \<Rightarrow> preferredOrder it | Some v \<Rightarrow> v),
      leadTime = (case p_leadTime p of None \<Rightarrow> leadTime it | Some v \<Rightarrow> Some v),
      unitCost = (case p_unitCost p of None \<Rightarrow> unitCost it | Some v \<Rightarrow> Some v),
      storage = (case p_storage p of None \<Rightarrow> storage it | Some v \<Rightarrow> v)\<rparr>"

definition updateItem :: "db \<Rightarrow> string \<Rightarrow> patch \<Rightarrow> db" where
  "updateItem d itemIdArg p =
     d\<lparr>items := map (\<lambda>it. if i_id it = itemIdArg then spread it p else it) (items d)\<rparr>"

definition removeItem :: "db \<Rightarrow> string \<Rightarrow> db" where
  "removeItem d itemIdArg = d\<lparr>items := filter (\<lambda>it. i_id it \<noteq> itemIdArg) (items d)\<rparr>"

text \<open>\<^verbatim>\<open>addTransaction\<close> returns the new state and the stored transaction.\<close>

definition addTransaction :: "db \<Rightarrow> tx \<Rightarrow> string \<Rightarrow> db \<times> tx" where
  "addTransaction d t r =
     (let ntx = t\<lparr>t_id := mkId ''t'' r\<rparr>
      in (d\<lparr>transactions := transactions d @ [ntx]\<rparr>, ntx))"

text \<open>
  The transfer form of \<^verbatim>\<open>TransfersView\<close>. \<^verbatim>\<open>createTransfer\<close> shows an alert on every
  path; the model returns the alert text with the resulting state. \<open>nowISO\<close> is
  \<^verbatim>\<open>new Date().toISOString()\<close>.
\<close>

record transferForm =
  f_branchFrom :: string
  f_branchTo :: string
  f_itemId :: string
  f_qty :: real
  f_date :: string
  f_notes :: string

definition createTransfer :: "transferForm \<Rightarrow> string \<Rightarrow> string \<Rightarrow> db \<Rightarrow> string \<times> db" where
  "createTransfer form nowISO r d =
     (if f_itemId form = [] then (''Select item'', d)
      else if f_branchFrom form = f_branchTo form then (''From and To cannot be same'', d)
      else (''Transfer recorded. Recipient will see added stock.'',
            fst (addTransaction d
              \<lparr>t_id = [], t_type = ''transfer'', itemId = f_itemId form, qty = f_qty form,
               date = nowISO, t_notes = f_notes form, branchId = None,
               branchFrom = Some (f_branchFrom form), branchTo = Some (f_branchTo form)\<rparr> r)))"

text \<open>
  One row of the daily-entry table, its three inputs already read as numbers. The random
  suffixes of the ids come from \<open>rnd\<close>, indexed by the ledger length at the call, and
  the clock is read once for the whole table.
\<close>

record entry =
  e_itemId :: string
  e_received :: real
  e_used :: real
  e_wastage :: real

definition dailyTx :: "string \<Rightarrow> string \<Rightarrow> string \<Rightarrow> real \<Rightarrow> string \<Rightarrow> string \<Rightarrow> tx" where
  "dailyTx ty b i q nowISO n =
     \<lparr>t_id = [], t_type = ty, itemId = i, qty = q, date = nowISO, t_notes = n,
      branchId = Some b, branchFrom = None, branchTo = None\<rparr>"

definition saveEntry :: "string \<Rightarrow> string \<Rightarrow> (nat \<Rightarrow> string) \<Rightarrow> entry \<Rightarrow> db \<Rightarrow> db" where
  "saveEntry b nowISO rnd e d =
     (let d1 = (if e_received e \<noteq> 0 \<and> e_received e > 0
                then fst (addTransaction d (dailyTx ''receive'' b (e_itemId e) (e_received e) nowISO ''Daily receive'')
                            (rnd (length (transactions d))))
                else d);
          d2 = (if e_used e \<noteq> 0 \<and> e_used e > 0
                then fst (addTransaction d1 (dailyTx ''use'' b (e_itemId e) (e_used e) nowISO ''Daily use'')
                            (rnd (length (transactions d1))))
                else d1);
          d3 = (if e_wastage e \<noteq> 0 \<and> e_wastage e > 0
                then fst (addTransaction d2 (dailyTx ''wastage'' b (e_itemId e) (e_wastage e) nowISO ''Wastage'')
                            (rnd (length (transactions d2))))
                else d2)
      in d3)"

definition saveAll :: "string \<Rightarrow> string \<Rightarrow> (nat \<Rightarrow> string) \<Rightarrow> entry list \<Rightarrow> db \<Rightarrow> db" where
  "saveAll b nowISO rnd entryList d = fold (saveEntry b nowISO rnd) entryList d"

section \<open>Daily record\<close>

record dailyRecord =
  start :: real
  received :: real
  transferIn :: real
  transferOut :: real
  used :: real
  wastage :: real
  endStock :: real

text \<open>The five counters of \<^verbatim>\<open>calcDailyRecord\<close>, updated by the \<^verbatim>\<open>forEach\<close> callback.\<close>

record counters =
  c_received :: real
  c_transferIn :: real
  c_transferOut :: real
  c_used :: real
  c_wastage :: real

definition dailyStep :: "string \<Rightarrow> tx \<Rightarrow> counters \<Rightarrow> counters" where
  "dailyStep branchIdArg t c =
     (let c1 = (if t_type t = ''receive'' \<and> branchId t = Some branchIdArg
                then c\<lparr>c_received := c_received c + qty t\<rparr> else c);
          c2 = (if t_type t = ''transfer'' \<and> branchFrom t = Some branchIdArg
                then c1\<lparr>c_transferOut := c_transferOut c1 + qty t\<rparr> else c1);
          c3 = (if t_type t = ''transfer'' \<and> branchTo t = Some branchIdArg
                then c2\<lparr>c_transferIn := c_transferIn c2 + qty t\<rparr> else c2);
          c4 = (if t_type t = ''use'' \<and> branchId t = Some branchIdArg
                then c3\<lparr>c_used := c_used c3 + qty t\<rparr> else c3);
          c5 = (if t_type t = ''wastage'' \<and> branchId t = Some branchIdArg
                then c4\<lparr>c_wastage := c_wastage c4 + qty t\<rparr> else c4)
      in c5)"

text \<open>\<^verbatim>\<open>getLatestEndStockBefore\<close> returns \<^verbatim>\<open>null\<close> on every input.\<close>

definition getLatestEndStockBefore :: "string \<Rightarrow> string \<Rightarrow> string \<Rightarrow> real option" where
  "getLatestEndStockBefore branchIdArg itemIdArg dateDay = None"

definition calcDailyRecord :: "db \<Rightarrow> string \<Rightarrow> string \<Rightarrow> string \<Rightarrow> dailyRecord" where
  "calcDailyRecord d branchIdArg itemIdArg dateISO =
     (let day = take 10 dateISO;
          txs = filter (\<lambda>t. itemId t = itemIdArg \<and> take 10 (date t) = day) (transactions d);
          c = fold (dailyStep branchIdArg) txs
                \<lparr>c_received = 0, c_transferIn = 0, c_transferOut = 0, c_used = 0, c_wastage = 0\<rparr>;
          previous = getLatestEndStockBefore branchIdArg itemIdArg day;
          start = (case previous of Some p \<Rightarrow> p | None \<Rightarrow> 0);
          endVal = start + c_received c + c_transferIn c - c_used c - c_transferOut c - c_wastage c
      in \<lparr>start = start, received = c_received c, transferIn = c_transferIn c,
          transferOut = c_transferOut c, used = c_used c, wastage = c_wastage c,
          endStock = endVal\<rparr>)"

section \<open>Dates\<close>

text \<open>
  The code uses the platform's \<^verbatim>\<open>Date\<close> in five ways: parsing a stored string
  (\<^verbatim>\<open>new Date(t.date)\<close>), \<^verbatim>\<open>getFullYear\<close>, \<^verbatim>\<open>getMonth\<close>, \<^verbatim>\<open>getDate\<close> and
  \<^verbatim>\<open>setDate\<close>. What they return depends on the host (its time zone, and its parser
  outside the ISO format), so the model takes them as a record of functions over time
  values (milliseconds since the epoch). \<open>parseDate\<close> gives \<open>None\<close> for an invalid
  date, whose comparisons are all false.
\<close>

record jsDate =
  parseDate :: "string \<Rightarrow> int option"
  getFullYear :: "int \<Rightarrow> int"
  getMonth :: "int \<Rightarrow> int"
  getDate :: "int \<Rightarrow> int"
  setDate :: "int \<Rightarrow> int \<Rightarrow> int"

text \<open>
  A concrete host for evaluating examples: local time is UTC and the parser reads the
  24-character text that \<^verbatim>\<open>toISOString\<close> writes, \<^verbatim>\<open>YYYY-MM-DDTHH:mm:ss.sssZ\<close>.
  Day numbers follow the proleptic Gregorian calendar, day 0 being 1970-01-01.
\<close>

definition msPerDay :: int where
  "msPerDay = 86400000"

definition daysFromCivil :: "int \<Rightarrow> int \<Rightarrow> int \<Rightarrow> int" where
  "daysFromCivil y m dd =
     (let y1 = (if m \<le> 2 then y - 1 else y);
          era = y1 div 400;
          yoe = y1 - era * 400;
          mp = (if m > 2 then m - 3 else m + 9);
          doy = (153 * mp + 2) div 5 + dd - 1;
          doe = yoe * 365 + yoe div 4 - yoe div 100 + doy
      in era * 146097 + doe - 719468)"

definition civilFromDays :: "int \<Rightarrow> int \<times> int \<times> int" where
  "civilFromDays z0 =
     (let z = z0 + 719468;
          era = z div 146097;
          doe = z - era * 146097;
          yoe = (doe - doe div 1460 + doe div 36524 - doe div 146096) div 365;
          doy = doe - (365 * yoe + yoe div 4 - yoe div 100);
          mp = (5 * doy + 2) div 153;
          dd = doy - (153 * mp + 2) div 5 + 1;
          m = (if mp < 10 then mp + 3 else mp - 9);
          y = yoe + era * 400 + (if m \<le> 2 then 1 else 0)
      in (y, m, dd))"

definition digitVal :: "char \<Rightarrow> int option" where
  "digitVal c =
     (let n = (of_char c :: nat) in if 48 \<le> n \<and> n \<le> 57 then Some (int n - 48) else None)"

fun digitsVal :: "int \<Rightarrow> string \<Rightarrow> int option" where
  "digitsVal acc [] = Some acc"
| "digitsVal acc (c # cs) =
     (case digitVal c of None \<Rightarrow> None | Some v \<Rightarrow> digitsVal (acc * 10 + v) cs)"

definition isoField :: "string \<Rightarrow> nat \<Rightarrow> nat \<Rightarrow> int option" where
  "isoField s from n = digitsVal 0 (take n (drop from s))"

definition daysInMonth :: "int \<Rightarrow> int \<Rightarrow> int" where
  "daysInMonth y m =
     (if m = 2 then (if y mod 4 = 0 \<and> (y mod 100 \<noteq> 0 \<or> y mod 400 = 0) then 29 else 28)
      else if m = 4 \<or> m = 6 \<or> m = 9 \<or> m = 11 then 30 else 31)"

definition isoParse :: "string \<Rightarrow> int option" where
  "isoParse s =
     (if length s = 24 \<and> s ! 4 = CHR ''-'' \<and> s ! 7 = CHR ''-'' \<and> s ! 10 = CHR ''T''
         \<and> s ! 13 = CHR '':'' \<and> s ! 16 = CHR '':'' \<and> s ! 19 = CHR ''.'' \<and> s ! 23 = CHR ''Z''
      then
        (case (isoField s 0 4, isoField s 5 2, isoField s 8 2, isoField s 11 2, isoField s 14 2, isoField s 17 2, isoField s 20 3) of
           (Some y, Some m, Some dd, Some h, Some mi, Some sec, Some ms) \<Rightarrow>
             if 1 \<le> m \<and> m \<le> 12 \<and> 1 \<le> dd \<and> dd \<le> daysInMonth y m \<and> h \<le> 23 \<and> mi \<le> 59 \<and> sec \<le> 59
             then Some (daysFromCivil y m dd * msPerDay + h * 3600000 + mi * 60000 + sec * 1000 + ms)
             else None
         | _ \<Rightarrow> None)
      else None)"

definition utcDate :: jsDate where
  "utcDate =
     \<lparr>parseDate = isoParse,
      getFullYear = (\<lambda>t. fst (civilFromDays (t div msPerDay))),
      getMonth = (\<lambda>t. fst (snd (civilFromDays (t div msPerDay))) - 1),
      getDate = (\<lambda>t. snd (snd (civilFromDays (t div msPerDay)))),
      setDate = (\<lambda>t dd. t + (dd - snd (snd (civilFromDays (t div msPerDay)))) * msPerDay)\<rparr>"

section \<open>Average usage\<close>

text \<open>
  A quotient of two numbers is the one place where the exact model leaves the reals:
  JavaScript gives \<^verbatim>\<open>NaN\<close> for \<^verbatim>\<open>0/0\<close> and an infinity for any other division by zero.
\<close>

datatype jsnum = Fin real | NaN | PosInf | NegInf




text \<open>\<^verbatim>\<open>x || 0\<close> on a number: zero and \<^verbatim>\<open>NaN\<close> are falsy.\<close>

definition orZero :: "jsnum \<Rightarrow> jsnum" where
  "orZero x = (case x of Fin v \<Rightarrow> (if v = 0 then Fin 0 else Fin v) | NaN \<Rightarrow> Fin 0 | PosInf \<Rightarrow> PosInf | NegInf \<Rightarrow> NegInf)"

section \<open>Period report\<close>

text \<open>
  The reducer of \<^verbatim>\<open>ReportsView\<close> for one item. The view's state is the selected branch,
  \<open>rangeType\<close>, \<open>year\<close> and \<open>month\<close> (the numbers \<^verbatim>\<open>Number(year)\<close> and
  \<^verbatim>\<open>Number(month)\<close>).
\<close>

definition usageReducer :: "jsDate \<Rightarrow> string \<Rightarrow> string \<Rightarrow> int \<Rightarrow> int \<Rightarrow> item \<Rightarrow> tx \<Rightarrow> real \<Rightarrow> real" where
  "usageReducer H branchIdArg rangeType year month it t acc =
     (if itemId t \<noteq> i_id it then acc
      else case parseDate H (date t) of
        None \<Rightarrow> acc
      | Some tdate \<Rightarrow>
          if getFullYear H tdate \<noteq> year then acc
          else if rangeType = ''monthly'' \<and> getMonth H tdate + 1 \<noteq> month then acc
          else if branchId t \<noteq> Some branchIdArg \<and> branchFrom t \<noteq> Some branchIdArg
                  \<and> branchTo t \<noteq> Some branchIdArg then acc
          else if t_type t = ''use'' then acc + qty t
          else acc)"

text \<open>
  \<^verbatim>\<open>{ ...it, usedQty: sum }\<close> is the pair of the item and its sum. \<^verbatim>\<open>Array.prototype.sort\<close>
  is stable; with the comparator \<^verbatim>\<open>b.usedQty - a.usedQty\<close> it orders by descending
  \<open>usedQty\<close>, which is the stable insertion sort on the negated key.
\<close>

definition itemsWithUsage :: "jsDate \<Rightarrow> db \<Rightarrow> string \<Rightarrow> string \<Rightarrow> int \<Rightarrow> int \<Rightarrow> (item \<times> real) list" where
  "itemsWithUsage H d branchIdArg rangeType year month =
     sort_key (\<lambda>p. - snd p)
       (map (\<lambda>it. (it, fold (usageReducer H branchIdArg rangeType year month it) (transactions d) 0))
            (items d))"

definition totalCost :: "(item \<times> real) list \<Rightarrow> real" where
  "totalCost rows =
     fold (\<lambda>row acc. acc + snd row * (case unitCost (fst row) of None \<Rightarrow> 0 | Some c \<Rightarrow> c)) rows 0"

section \<open>Binary64 arithmetic\<close>

text \<open>
  A JavaScript number is an IEEE 754 binary64 value, and every arithmetic operation returns
  the exact result rounded to the nearest such value, ties to the even significand. The
  definitions above compute with exact reals; the definitions of this section run the
  stock loop, the average and the suggested order as the engine does. A finite binary64
  value is the real number it denotes (\<open>Fin\<close>); the two zeros are one value, since the
  code modelled here never divides by a negative zero and never shows the sign of a zero.

  \<open>bitLength n\<close> is the number of binary digits of \<open>n\<close>, and \<open>ilog2 x\<close> the exponent
  \<open>e\<close> with \<open>2^e \<le> |x| < 2^(e+1)\<close> for \<open>x\<close> not zero.
\<close>

fun bitLength :: "nat \<Rightarrow> nat" where
  "bitLength n = (if n = 0 then 0 else Suc (bitLength (n div 2)))"

declare bitLength.simps [simp del]

definition ilog2 :: "real \<Rightarrow> int" where
  "ilog2 x =
     (if 1 \<le> \<bar>x\<bar> then int (bitLength (nat \<lfloor>\<bar>x\<bar>\<rfloor>)) - 1
      else - int (bitLength (nat \<lceil>1 / \<bar>x\<bar>\<rceil> - 1)))"

definition pow2 :: "int \<Rightarrow> real" where
  "pow2 e = (if 0 \<le> e then 2 ^ nat e else 1 / 2 ^ nat (- e))"

definition roundEven :: "real \<Rightarrow> int" where
  "roundEven y =
     (let f = \<lfloor>y\<rfloor>; r = y - of_int f
      in if r < 1 / 2 then f else if 1 / 2 < r then f + 1 else if even f then f else f + 1)"

text \<open>
  Rounding a real to binary64: 53 significant bits, the exponent not below that of the
  subnormal numbers, and an infinity when the rounded magnitude reaches \<open>2^1024\<close>, that
  is when its exponent reaches 1024.
\<close>

definition fl :: "real \<Rightarrow> jsnum" where
  "fl x =
     (if x = 0 then Fin 0
      else
        let e = max (ilog2 x) (- 1022);
            q = pow2 (e - 52);
            r = of_int (roundEven (x / q)) * q
        in if 1024 \<le> ilog2 r then (if 0 < x then PosInf else NegInf) else Fin r)"

text \<open>The value a decimal literal or a parsed input denotes.\<close>

definition lit :: "real \<Rightarrow> real" where
  "lit x = (case fl x of Fin r \<Rightarrow> r | NaN \<Rightarrow> 0 | PosInf \<Rightarrow> 0 | NegInf \<Rightarrow> 0)"

definition jsNeg :: "jsnum \<Rightarrow> jsnum" where
  "jsNeg a = (case a of Fin x \<Rightarrow> Fin (- x) | NaN \<Rightarrow> NaN | PosInf \<Rightarrow> NegInf | NegInf \<Rightarrow> PosInf)"

fun jsAdd :: "jsnum \<Rightarrow> jsnum \<Rightarrow> jsnum" where
  "jsAdd (Fin x) (Fin y) = fl (x + y)"
| "jsAdd NaN b = NaN"
| "jsAdd a NaN = NaN"
| "jsAdd PosInf NegInf = NaN"
| "jsAdd NegInf PosInf = NaN"
| "jsAdd PosInf b = PosInf"
| "jsAdd NegInf b = NegInf"
| "jsAdd a PosInf = PosInf"
| "jsAdd a NegInf = NegInf"

definition jsSub :: "jsnum \<Rightarrow> jsnum \<Rightarrow> jsnum" where
  "jsSub a b = jsAdd a (jsNeg b)"

text \<open>The sign of a product or quotient with an infinite operand.\<close>

definition signed :: "bool \<Rightarrow> jsnum" where
  "signed positive = (if positive then PosInf else NegInf)"

fun jsMul :: "jsnum \<Rightarrow> jsnum \<Rightarrow> jsnum" where
  "jsMul (Fin x) (Fin y) = fl (x * y)"
| "jsMul NaN b = NaN"
| "jsMul a NaN = NaN"
| "jsMul (Fin x) PosInf = (if x = 0 then NaN else signed (0 < x))"
| "jsMul (Fin x) NegInf = (if x = 0 then NaN else signed (x < 0))"
| "jsMul PosInf (Fin y) = (if y = 0 then NaN else signed (0 < y))"
| "jsMul NegInf (Fin y) = (if y = 0 then NaN else signed (y < 0))"
| "jsMul PosInf PosInf = PosInf"
| "jsMul PosInf NegInf = NegInf"
| "jsMul NegInf PosInf = NegInf"
| "jsMul NegInf NegInf = PosInf"

text \<open>A zero divisor is the positive zero: the divisors of the code are counts and 100.\<close>

fun jsDiv :: "jsnum \<Rightarrow> jsnum \<Rightarrow> jsnum" where
  "jsDiv (Fin x) (Fin y) =
     (if y \<noteq> 0 then fl (x / y) else if x = 0 then NaN else signed (0 < x))"
| "jsDiv NaN b = NaN"
| "jsDiv a NaN = NaN"
| "jsDiv (Fin x) PosInf = Fin 0"
| "jsDiv (Fin x) NegInf = Fin 0"
| "jsDiv PosInf (Fin y) = signed (0 \<le> y)"
| "jsDiv NegInf (Fin y) = signed (y < 0)"
| "jsDiv PosInf PosInf = NaN"
| "jsDiv PosInf NegInf = NaN"
| "jsDiv NegInf PosInf = NaN"
| "jsDiv NegInf NegInf = NaN"

text \<open>
  \<^verbatim>\<open>Math.round\<close> and \<^verbatim>\<open>Math.ceil\<close> return the exact integer (it is a binary64 value);
  \<^verbatim>\<open>Math.max(0, r)\<close>; and the test \<^verbatim>\<open>r > 0\<close>, false for \<^verbatim>\<open>NaN\<close>.
\<close>

definition mathRound64 :: "jsnum \<Rightarrow> jsnum" where
  "mathRound64 a = (case a of Fin x \<Rightarrow> Fin (of_int (mathRound x)) | NaN \<Rightarrow> NaN | PosInf \<Rightarrow> PosInf | NegInf \<Rightarrow> NegInf)"

definition mathCeil64 :: "jsnum \<Rightarrow> jsnum" where
  "mathCeil64 a = (case a of Fin x \<Rightarrow> Fin (of_int \<lceil>x\<rceil>) | NaN \<Rightarrow> NaN | PosInf \<Rightarrow> PosInf | NegInf \<Rightarrow> NegInf)"

definition mathMax0 :: "jsnum \<Rightarrow> jsnum" where
  "mathMax0 a = (case a of Fin x \<Rightarrow> Fin (max 0 x) | NaN \<Rightarrow> NaN | PosInf \<Rightarrow> PosInf | NegInf \<Rightarrow> Fin 0)"

definition jsPositive :: "jsnum \<Rightarrow> bool" where
  "jsPositive a = (case a of Fin x \<Rightarrow> 0 < x | NaN \<Rightarrow> False | PosInf \<Rightarrow> True | NegInf \<Rightarrow> False)"


section \<open>The stock loop, the average and the suggested order on binary64\<close>

text \<open>\<^verbatim>\<open>getCurrentStock\<close>: the callback, the loop and the returned value.\<close>

definition stockStep64 :: "string \<Rightarrow> string \<Rightarrow> tx \<Rightarrow> jsnum \<Rightarrow> jsnum" where
  "stockStep64 branchIdArg itemIdArg t stock =
     (if itemId t \<noteq> itemIdArg then stock
      else
        let s1 = (if t_type t = ''receive'' \<and> branchId t = Some branchIdArg then jsAdd stock (Fin (qty t)) else stock);
            s2 = (if t_type t = ''transfer'' \<and> branchTo t = Some branchIdArg then jsAdd s1 (Fin (qty t)) else s1);
            s3 = (if t_type t = ''use'' \<and> branchId t = Some branchIdArg then jsSub s2 (Fin (qty t)) else s2);
            s4 = (if t_type t = ''wastage'' \<and> branchId t = Some branchIdArg then jsSub s3 (Fin (qty t)) else s3);
            s5 = (if t_type t = ''transfer'' \<and> branchFrom t = Some branchIdArg then jsSub s4 (Fin (qty t)) else s4)
        in s5)"

definition stockLoop64 :: "tx list \<Rightarrow> string \<Rightarrow> string \<Rightarrow> jsnum" where
  "stockLoop64 txs branchIdArg itemIdArg = fold (stockStep64 branchIdArg itemIdArg) txs (Fin 0)"

definition getCurrentStock64 :: "db \<Rightarrow> string \<Rightarrow> string \<Rightarrow> jsnum" where
  "getCurrentStock64 d branchIdArg itemIdArg =
     (let stock = stockLoop64 (transactions d) branchIdArg itemIdArg
      in mathMax0 (jsDiv (mathRound64 (jsMul stock (Fin 100))) (Fin 100)))"

text \<open>\<^verbatim>\<open>avgUsageForItem\<close>: the callback on \<^verbatim>\<open>(total, daysSeen)\<close> and the quotient.\<close>

definition usageStep64 :: "jsDate \<Rightarrow> int \<Rightarrow> string \<Rightarrow> string \<Rightarrow> tx \<Rightarrow> jsnum \<times> string set \<Rightarrow> jsnum \<times> string set" where
  "usageStep64 H cutoff branchIdArg itemIdArg t acc =
     (if t_type t = ''use'' \<and> branchId t = Some branchIdArg \<and> itemId t = itemIdArg then
        (case parseDate H (date t) of
           None \<Rightarrow> acc
         | Some dt \<Rightarrow>
             if dt \<ge> cutoff then (jsAdd (fst acc) (Fin (qty t)), insert (take 10 (date t)) (snd acc))
             else acc)
      else acc)"

definition avgUsageForItem64 :: "jsDate \<Rightarrow> int \<Rightarrow> db \<Rightarrow> string \<Rightarrow> string \<Rightarrow> int \<Rightarrow> jsnum" where
  "avgUsageForItem64 H now d branchIdArg itemIdArg rangeDays =
     (let cutoff = setDate H now (getDate H now - rangeDays);
          acc = fold (usageStep64 H cutoff branchIdArg itemIdArg) (transactions d) (Fin 0, {});
          total = fst acc;
          daysSeen = snd acc;
          days = (if card daysSeen \<noteq> 0 then real (card daysSeen) else of_int rangeDays)
      in jsDiv total (Fin days))"

text \<open>
  \<^verbatim>\<open>suggestedOrderQty\<close>. The literal \<^verbatim>\<open>1.2\<close> is the binary64 value nearest to 12/10, and
  the product is taken left to right.
\<close>

definition suggestedOrderQty :: "jsDate \<Rightarrow> int \<Rightarrow> db \<Rightarrow> string \<Rightarrow> string \<Rightarrow> jsnum" where
  "suggestedOrderQty H now d branchIdArg itemIdArg =
     (case find (\<lambda>i. i_id i = itemIdArg) (items d) of
        None \<Rightarrow> Fin 0
      | Some item \<Rightarrow>
          let avgDaily = orZero (avgUsageForItem64 H now d branchIdArg itemIdArg 30);
              lead = (case leadTime item of None \<Rightarrow> 2 | Some l \<Rightarrow> if l = 0 then 2 else l);
              safetyFactor = fl (12 / 10);
              needed = mathCeil64 (jsSub (jsMul (jsMul avgDaily (Fin lead)) safetyFactor)
                                         (getCurrentStock64 d branchIdArg itemIdArg))
          in if jsPositive needed then needed else Fin 0)"

section \<open>The specification's wording and example data\<close>

text \<open>
  The signed contribution of one transaction to the stock of branch \<open>b\<close>, as the
  specification lists it: plus for a receive at \<open>b\<close> and a transfer to \<open>b\<close>, minus for a
  use at \<open>b\<close>, a wastage at \<open>b\<close> and a transfer from \<open>b\<close>.
\<close>

definition contribution :: "string \<Rightarrow> tx \<Rightarrow> real" where
  "contribution b t =
     (if t_type t = ''receive'' \<and> branchId t = Some b then qty t else 0)
   + (if t_type t = ''transfer'' \<and> branchTo t = Some b then qty t else 0)
   - (if t_type t = ''use'' \<and> branchId t = Some b then qty t else 0)
   - (if t_type t = ''wastage'' \<and> branchId t = Some b then qty t else 0)
   - (if t_type t = ''transfer'' \<and> branchFrom t = Some b then qty t else 0)"


text \<open>Example transactions and states.\<close>

definition exTx :: "string \<Rightarrow> string \<Rightarrow> real \<Rightarrow> string \<Rightarrow> string option \<Rightarrow> string option \<Rightarrow> string option \<Rightarrow> tx" where
  "exTx ty i q dt b bf bt =
     \<lparr>t_id = ''t_x'', t_type = ty, itemId = i, qty = q, date = dt, t_notes = '''',
      branchId = b, branchFrom = bf, branchTo = bt\<rparr>"

definition emptyDb :: db where
  "emptyDb = \<lparr>branches = [], items = [], transactions = []\<rparr>"

definition scenario2 :: db where
  "scenario2 = emptyDb\<lparr>transactions :=
       [exTx ''receive'' ''i1'' 20 ''2024-01-01T10:00:00.000Z'' (Some ''A'') None None,
        exTx ''use'' ''i1'' 5 ''2024-01-01T11:00:00.000Z'' (Some ''A'') None None,
        exTx ''transfer'' ''i1'' 3 ''2024-01-01T12:00:00.000Z'' None (Some ''A'') (Some ''B'')]\<rparr>"

definition scenario2rev :: db where
  "scenario2rev = emptyDb\<lparr>transactions := rev (transactions scenario2)\<rparr>"



text \<open>
  The transactions of an item on the calendar day of \<open>dateISO\<close> (the first ten
  characters of a date; the time of day is not read), and the sum of the quantities of
  the transactions that satisfy a condition.
\<close>

definition onDay :: "string \<Rightarrow> string \<Rightarrow> tx list \<Rightarrow> tx list" where
  "onDay itemIdArg dateISO txs =
     filter (\<lambda>t. itemId t = itemIdArg \<and> take 10 (date t) = take 10 dateISO) txs"

definition sumWhere :: "(tx \<Rightarrow> bool) \<Rightarrow> tx list \<Rightarrow> real" where
  "sumWhere P txs = (\<Sum>t\<leftarrow>filter P txs. qty t)"

text \<open>A day with a use of 5 and a receive of 2, and a receive of 50 on the next day.\<close>

definition use5 :: db where
  "use5 = emptyDb\<lparr>transactions :=
       [exTx ''use'' ''i1'' 5 ''2024-01-01T08:30:00.000Z'' (Some ''A'') None None,
        exTx ''receive'' ''i1'' 2 ''2024-01-01T23:59:59.999Z'' (Some ''A'') None None,
        exTx ''receive'' ''i1'' 50 ''2024-01-02T00:00:00.000Z'' (Some ''A'') None None]\<rparr>"

text \<open>
  A transfer that breaks both constraints (quantity -1, from A to A), the transfer form
  as it first shows (quantity 0) between two branches, the same form with source and
  destination equal, and a table of daily entries holding a zero and a negative input.
\<close>

definition badTransfer :: tx where
  "badTransfer = exTx ''transfer'' ''i1'' (- 1) ''2024-01-02T12:00:00.000Z'' None (Some ''A'') (Some ''A'')"

definition zeroForm :: transferForm where
  "zeroForm = \<lparr>f_branchFrom = ''A'', f_branchTo = ''B'', f_itemId = ''i1'', f_qty = 0,
     f_date = ''2024-01-02'', f_notes = []\<rparr>"

definition sameForm :: transferForm where
  "sameForm = zeroForm\<lparr>f_branchTo := ''A'', f_qty := 4\<rparr>"

definition entriesEx :: "entry list" where
  "entriesEx =
     [\<lparr>e_itemId = ''i1'', e_received = 7, e_used = 0, e_wastage = - 2\<rparr>,
      \<lparr>e_itemId = ''i2'', e_received = 0, e_used = 3 / 2, e_wastage = 0\<rparr>]"

definition rndEx :: "nat \<Rightarrow> string" where
  "rndEx n = replicate (Suc n) CHR ''a''"

text \<open>
  The transactions that count for the average, in the specification's words: the uses of
  the item at the branch whose date parses to a time not before the cutoff, the cutoff
  being \<open>now\<close> moved back by \<open>rangeDays\<close> days of the month; and the number of distinct
  calendar days among the dates of a list of transactions.
\<close>

definition usageWindow :: "jsDate \<Rightarrow> int \<Rightarrow> int \<Rightarrow> string \<Rightarrow> string \<Rightarrow> tx list \<Rightarrow> tx list" where
  "usageWindow H now rangeDays b i txs =
     filter (\<lambda>t. t_type t = ''use'' \<and> branchId t = Some b \<and> itemId t = i
                \<and> (case parseDate H (date t) of
                      None \<Rightarrow> False
                    | Some dt \<Rightarrow> setDate H now (getDate H now - rangeDays) \<le> dt)) txs"

definition activeDays :: "tx list \<Rightarrow> nat" where
  "activeDays txs = card (set (map (\<lambda>t. take 10 (date t)) txs))"

text \<open>
  A clock reading, 2024-03-15T12:00:00.000Z, and a ledger with uses of 10, 4 and 6 at
  branch A on two days of the thirty before it, a use of 100 ten weeks earlier and a use
  at branch B.
\<close>

definition nowEx :: int where
  "nowEx = 1710504000000"

definition usesEx :: "tx list" where
  "usesEx =
     [exTx ''use'' ''i1'' 10 ''2024-03-01T09:00:00.000Z'' (Some ''A'') None None,
      exTx ''use'' ''i1'' 4 ''2024-03-10T10:00:00.000Z'' (Some ''A'') None None,
      exTx ''use'' ''i1'' 100 ''2024-01-05T10:00:00.000Z'' (Some ''A'') None None,
      exTx ''use'' ''i1'' 50 ''2024-03-05T10:00:00.000Z'' (Some ''B'') None None,
      exTx ''use'' ''i1'' 6 ''2024-03-10T18:30:00.000Z'' (Some ''A'') None None]"


text \<open>
  An item with a given lead time, a receive at branch A, and a state holding that item
  and a given ledger.
\<close>

definition itemEx :: "real option \<Rightarrow> item" where
  "itemEx lt = \<lparr>i_id = ''i1'', i_name = ''Tomato'', category = ''Vegetable'', unit = ''kg'',
     minStock = 10, preferredOrder = 20, leadTime = lt, unitCost = Some 30, storage = ''Cold Room''\<rparr>"

definition receiveEx :: "real \<Rightarrow> tx" where
  "receiveEx q = exTx ''receive'' ''i1'' q ''2024-01-01T09:00:00.000Z'' (Some ''A'') None None"

definition orderDb :: "tx list \<Rightarrow> real option \<Rightarrow> db" where
  "orderDb txs lt = \<lparr>branches = [], items = [itemEx lt], transactions = txs\<rparr>"

text \<open>
  The report in the specification's words: a transaction is in the period when its date
  parses and its year is the selected one and, in monthly mode, its month is the selected
  one; it touches the branch when one of its three branch fields is the branch; the used
  quantity of an item is the sum of the quantities of its uses in the period that touch
  the branch.
\<close>

definition inPeriod :: "jsDate \<Rightarrow> string \<Rightarrow> int \<Rightarrow> int \<Rightarrow> tx \<Rightarrow> bool" where
  "inPeriod H rangeType year month t =
     (case parseDate H (date t) of
        None \<Rightarrow> False
      | Some td \<Rightarrow> getFullYear H td = year
                   \<and> (if rangeType = ''monthly'' then getMonth H td + 1 = month else True))"

definition touches :: "string \<Rightarrow> tx \<Rightarrow> bool" where
  "touches b t \<longleftrightarrow> branchId t = Some b \<or> branchFrom t = Some b \<or> branchTo t = Some b"

definition usedQtyOf :: "jsDate \<Rightarrow> string \<Rightarrow> string \<Rightarrow> int \<Rightarrow> int \<Rightarrow> tx list \<Rightarrow> item \<Rightarrow> real" where
  "usedQtyOf H b rangeType year month txs it =
     (\<Sum>t\<leftarrow>filter (\<lambda>t. itemId t = i_id it \<and> t_type t = ''use''
                        \<and> inPeriod H rangeType year month t \<and> touches b t) txs. qty t)"

definition costOf :: "item \<Rightarrow> real" where
  "costOf it = (case unitCost it of None \<Rightarrow> 0 | Some c \<Rightarrow> c)"

text \<open>
  A state with two items, tomato at 30 a unit and pork at 150, and uses of both in and
  out of March 2024.
\<close>

definition porkEx :: item where
  "porkEx = \<lparr>i_id = ''i2'', i_name = ''Pork (raw)'', category = ''Raw Meat'', unit = ''kg'',
     minStock = 15, preferredOrder = 30, leadTime = Some 3, unitCost = Some 150, storage = ''Fridge''\<rparr>"

definition reportDb :: db where
  "reportDb = \<lparr>branches = [], items = [itemEx (Some 2), porkEx],
     transactions =
       [exTx ''use'' ''i1'' 10 ''2024-03-01T09:00:00.000Z'' (Some ''A'') None None,
        exTx ''use'' ''i2'' 14 ''2024-03-02T09:00:00.000Z'' (Some ''A'') None None,
        exTx ''use'' ''i1'' 5 ''2024-04-01T09:00:00.000Z'' (Some ''A'') None None,
        exTx ''use'' ''i2'' 7 ''2023-03-05T09:00:00.000Z'' (Some ''A'') None None,
        exTx ''receive'' ''i1'' 99 ''2024-03-03T09:00:00.000Z'' (Some ''A'') None None,
        exTx ''transfer'' ''i1'' 8 ''2024-03-03T10:00:00.000Z'' None (Some ''A'') (Some ''B''),
        exTx ''use'' ''i1'' 3 ''2024-03-04T09:00:00.000Z'' (Some ''B'') None None]\<rparr>"

text \<open>
  Three receives at branch A of 0.001, 0.01 and 0.044, and an item used 2, 2 and 1 on
  three days.
\<close>

definition tieTxs :: "tx list" where
  "tieTxs =
     [exTx ''receive'' ''i1'' (lit (1 / 1000)) ''2024-01-01T10:00:00.000Z'' (Some ''A'') None None,
      exTx ''receive'' ''i1'' (lit (1 / 100)) ''2024-01-01T11:00:00.000Z'' (Some ''A'') None None,
      exTx ''receive'' ''i1'' (lit (44 / 1000)) ''2024-01-01T12:00:00.000Z'' (Some ''A'') None None]"

definition threeDays :: "tx list" where
  "threeDays =
     [exTx ''use'' ''i1'' 2 ''2024-03-01T09:00:00.000Z'' (Some ''A'') None None,
      exTx ''use'' ''i1'' 2 ''2024-03-02T09:00:00.000Z'' (Some ''A'') None None,
      exTx ''use'' ''i1'' 1 ''2024-03-03T09:00:00.000Z'' (Some ''A'') None None]"

text \<open>A whole number, and the movements of one transaction at a branch, in the order of the code.\<close>

definition whole :: "real \<Rightarrow> bool" where
  "whole x \<longleftrightarrow> x = of_int \<lfloor>x\<rfloor>"


text \<open>The tie ledger in its two orders.\<close>

definition tieDb :: db where
  "tieDb = emptyDb\<lparr>transactions := tieTxs\<rparr>"

definition tieDbRev :: db where
  "tieDbRev = emptyDb\<lparr>transactions := rev tieTxs\<rparr>"

text \<open>
  The expression of the order suggestion on binary64, for a given average, lead time and
  stock: \<^verbatim>\<open>Math.ceil(avgDaily * lead * 1.2 - stock)\<close> when it is above 0, otherwise 0.
\<close>

definition orderFormula :: "jsnum \<Rightarrow> real \<Rightarrow> jsnum \<Rightarrow> jsnum" where
  "orderFormula avgDaily lead stock =
     (let needed = mathCeil64 (jsSub (jsMul (jsMul avgDaily (Fin lead)) (fl (12 / 10))) stock)
      in if jsPositive needed then needed else Fin 0)"

text \<open>A ledger with a receive of 7.6 and uses of 3, 2 and 2 on three days.\<close>

definition fracTxs :: "tx list" where
  "fracTxs =
     [receiveEx (lit (76 / 10)),
      exTx ''use'' ''i1'' 3 ''2024-03-01T09:00:00.000Z'' (Some ''A'') None None,
      exTx ''use'' ''i1'' 2 ''2024-03-02T09:00:00.000Z'' (Some ''A'') None None,
      exTx ''use'' ''i1'' 2 ''2024-03-03T09:00:00.000Z'' (Some ''A'') None None]"

section \<open>Properties of the stock loop and of the rounding\<close>

lemma stockStep_add:
  "stockStep b i t s = s + (if itemId t = i then contribution b t else 0)"
  by (simp add: stockStep_def contribution_def Let_def)

lemma fold_stockStep:
  "fold (stockStep b i) txs s = s + (\<Sum>t\<leftarrow>txs. if itemId t = i then contribution b t else 0)"
  by (induction txs arbitrary: s) (simp_all add: stockStep_add add.assoc)

lemma stockLoop_sum:
  "stockLoop txs b i = (\<Sum>t\<leftarrow>txs. if itemId t = i then contribution b t else 0)"
  by (simp add: stockLoop_def fold_stockStep)

lemma mathRound_of_int: "mathRound (of_int k) = k"
  unfolding mathRound_def by linarith







lemma sum_list_mset_cong:
  fixes f :: "'a \<Rightarrow> real"
  assumes "mset xs = mset ys"
  shows "sum_list (map f xs) = sum_list (map f ys)"
proof -
  have "mset (map f xs) = mset (map f ys)" using assms by (simp only: mset_map)
  then have "sum_mset (mset (map f xs)) = sum_mset (mset (map f ys))" by (rule arg_cong)
  then show ?thesis by (simp only: sum_mset_sum_list)
qed

section \<open>Item management\<close>

text \<open>
  Claim C10. Removing an item or updating an item's attributes leaves the ledger as it
  was, and so leaves the current stock of every branch and item id (the removed one
  included) as it was.
\<close>

theorem item_edit_frame:
  "transactions (removeItem d x) = transactions d
   \<and> transactions (updateItem d x p) = transactions d
   \<and> getCurrentStock (removeItem d x) b i = getCurrentStock d b i
   \<and> getCurrentStock (updateItem d x p) b i = getCurrentStock d b i"
  by (simp add: removeItem_def updateItem_def getCurrentStock_def)

section \<open>Transfers\<close>




section \<open>Daily record\<close>

lemma dailyStep_fields:
  "c_received (dailyStep b t c) =
     c_received c + (if t_type t = ''receive'' \<and> branchId t = Some b then qty t else 0)"
  "c_transferIn (dailyStep b t c) =
     c_transferIn c + (if t_type t = ''transfer'' \<and> branchTo t = Some b then qty t else 0)"
  "c_transferOut (dailyStep b t c) =
     c_transferOut c + (if t_type t = ''transfer'' \<and> branchFrom t = Some b then qty t else 0)"
  "c_used (dailyStep b t c) =
     c_used c + (if t_type t = ''use'' \<and> branchId t = Some b then qty t else 0)"
  "c_wastage (dailyStep b t c) =
     c_wastage c + (if t_type t = ''wastage'' \<and> branchId t = Some b then qty t else 0)"
  by (simp_all add: dailyStep_def Let_def)

lemma sumWhere_Cons: "sumWhere P (t # txs) = (if P t then qty t else 0) + sumWhere P txs"
  by (simp add: sumWhere_def)

lemma fold_dailyStep:
  "fold (dailyStep b) txs c =
     \<lparr>c_received = c_received c + sumWhere (\<lambda>t. t_type t = ''receive'' \<and> branchId t = Some b) txs,
      c_transferIn = c_transferIn c + sumWhere (\<lambda>t. t_type t = ''transfer'' \<and> branchTo t = Some b) txs,
      c_transferOut = c_transferOut c + sumWhere (\<lambda>t. t_type t = ''transfer'' \<and> branchFrom t = Some b) txs,
      c_used = c_used c + sumWhere (\<lambda>t. t_type t = ''use'' \<and> branchId t = Some b) txs,
      c_wastage = c_wastage c + sumWhere (\<lambda>t. t_type t = ''wastage'' \<and> branchId t = Some b) txs\<rparr>"
proof (induction txs arbitrary: c)
  case Nil
  show ?case by (simp add: sumWhere_def)
next
  case (Cons t txs)
  show ?case by (simp add: Cons.IH dailyStep_fields sumWhere_Cons add.assoc)
qed

lemma contribution_sumWhere:
  "(\<Sum>t\<leftarrow>txs. contribution b t) =
     sumWhere (\<lambda>t. t_type t = ''receive'' \<and> branchId t = Some b) txs
   + sumWhere (\<lambda>t. t_type t = ''transfer'' \<and> branchTo t = Some b) txs
   - sumWhere (\<lambda>t. t_type t = ''use'' \<and> branchId t = Some b) txs
   - sumWhere (\<lambda>t. t_type t = ''wastage'' \<and> branchId t = Some b) txs
   - sumWhere (\<lambda>t. t_type t = ''transfer'' \<and> branchFrom t = Some b) txs"
  by (induction txs) (simp_all add: sumWhere_def contribution_def)

text \<open>
  Claim C6. \<^verbatim>\<open>calcDailyRecord\<close> reads only the transactions of the item whose date has
  the calendar-day part of the requested day; each of the five movements is the sum of
  the quantities under the branch rule of the current stock; \<open>start\<close> is 0, since the
  opening-balance lookup finds nothing; and \<open>end\<close> is start + received + transferIn -
  used - transferOut - wastage, the unclamped running sum of the day, which can be
  negative: a day with a use of 5 and a receive of 2 ends at -3.
\<close>

theorem calcDailyRecord_spec:
  "calcDailyRecord d b i dateISO =
     \<lparr>start = 0,
      received = sumWhere (\<lambda>t. t_type t = ''receive'' \<and> branchId t = Some b) (onDay i dateISO (transactions d)),
      transferIn = sumWhere (\<lambda>t. t_type t = ''transfer'' \<and> branchTo t = Some b) (onDay i dateISO (transactions d)),
      transferOut = sumWhere (\<lambda>t. t_type t = ''transfer'' \<and> branchFrom t = Some b) (onDay i dateISO (transactions d)),
      used = sumWhere (\<lambda>t. t_type t = ''use'' \<and> branchId t = Some b) (onDay i dateISO (transactions d)),
      wastage = sumWhere (\<lambda>t. t_type t = ''wastage'' \<and> branchId t = Some b) (onDay i dateISO (transactions d)),
      endStock = (\<Sum>t\<leftarrow>onDay i dateISO (transactions d). contribution b t)\<rparr>
   \<and> endStock (calcDailyRecord d b i dateISO) =
       start (calcDailyRecord d b i dateISO) + received (calcDailyRecord d b i dateISO)
       + transferIn (calcDailyRecord d b i dateISO) - used (calcDailyRecord d b i dateISO)
       - transferOut (calcDailyRecord d b i dateISO) - wastage (calcDailyRecord d b i dateISO)
   \<and> endStock (calcDailyRecord d b i dateISO) = stockLoop (onDay i dateISO (transactions d)) b i
   \<and> getLatestEndStockBefore b i (take 10 dateISO) = None
   \<and> endStock (calcDailyRecord use5 ''A'' ''i1'' ''2024-01-01'') = - 3
   \<and> getCurrentStock use5 ''A'' ''i1'' = 47"
proof -
  have r: "calcDailyRecord d b i dateISO =
     \<lparr>start = 0,
      received = sumWhere (\<lambda>t. t_type t = ''receive'' \<and> branchId t = Some b) (onDay i dateISO (transactions d)),
      transferIn = sumWhere (\<lambda>t. t_type t = ''transfer'' \<and> branchTo t = Some b) (onDay i dateISO (transactions d)),
      transferOut = sumWhere (\<lambda>t. t_type t = ''transfer'' \<and> branchFrom t = Some b) (onDay i dateISO (transactions d)),
      used = sumWhere (\<lambda>t. t_type t = ''use'' \<and> branchId t = Some b) (onDay i dateISO (transactions d)),
      wastage = sumWhere (\<lambda>t. t_type t = ''wastage'' \<and> branchId t = Some b) (onDay i dateISO (transactions d)),
      endStock = (\<Sum>t\<leftarrow>onDay i dateISO (transactions d). contribution b t)\<rparr>"
    by (simp add: calcDailyRecord_def getLatestEndStockBefore_def fold_dailyStep
        contribution_sumWhere onDay_def Let_def)
  have e: "endStock (calcDailyRecord d b i dateISO) =
       start (calcDailyRecord d b i dateISO) + received (calcDailyRecord d b i dateISO)
       + transferIn (calcDailyRecord d b i dateISO) - used (calcDailyRecord d b i dateISO)
       - transferOut (calcDailyRecord d b i dateISO) - wastage (calcDailyRecord d b i dateISO)"
    by (simp add: calcDailyRecord_def Let_def)
  have "(\<Sum>t\<leftarrow>onDay i dateISO (transactions d). contribution b t)
        = (\<Sum>t\<leftarrow>onDay i dateISO (transactions d). if itemId t = i then contribution b t else 0)"
    by (rule arg_cong [where f = sum_list]) (simp add: onDay_def)
  then have s: "endStock (calcDailyRecord d b i dateISO) = stockLoop (onDay i dateISO (transactions d)) b i"
    by (simp add: r stockLoop_sum)
  have x: "endStock (calcDailyRecord use5 ''A'' ''i1'' ''2024-01-01'') = - 3"
    by (simp add: calcDailyRecord_def getLatestEndStockBefore_def dailyStep_def use5_def emptyDb_def
        exTx_def Let_def)
  have y: "getCurrentStock use5 ''A'' ''i1'' = 47"
    by (simp add: getCurrentStock_def stockLoop_def stockStep_def use5_def emptyDb_def exTx_def
        mathRound_def Let_def)
  have l: "getLatestEndStockBefore b i (take 10 dateISO) = None"
    by (simp add: getLatestEndStockBefore_def)
  from r e s l x y show ?thesis by (intro conjI)
qed

section \<open>Average usage\<close>









section \<open>Period report\<close>

lemma usageReducer_add:
  "usageReducer H b rangeType year month it t acc =
     acc + (if itemId t = i_id it \<and> t_type t = ''use'' \<and> inPeriod H rangeType year month t \<and> touches b t
            then qty t else 0)"
  by (simp add: usageReducer_def inPeriod_def touches_def split: option.split)

lemma fold_usageReducer:
  "fold (usageReducer H b rangeType year month it) txs acc =
     acc + usedQtyOf H b rangeType year month txs it"
proof (induction txs arbitrary: acc)
  case Nil
  show ?case by (simp add: usedQtyOf_def)
next
  case (Cons t txs)
  have "fold (usageReducer H b rangeType year month it) (t # txs) acc =
        fold (usageReducer H b rangeType year month it) txs (usageReducer H b rangeType year month it t acc)"
    by simp
  also have "\<dots> = usageReducer H b rangeType year month it t acc + usedQtyOf H b rangeType year month txs it"
    by (rule Cons.IH)
  also have "\<dots> = acc + usedQtyOf H b rangeType year month (t # txs) it"
    by (simp add: usageReducer_add usedQtyOf_def)
  finally show ?case .
qed

lemma itemsWithUsage_eq:
  "itemsWithUsage H d b rangeType year month =
     sort_key (\<lambda>p. - snd p)
       (map (\<lambda>it. (it, usedQtyOf H b rangeType year month (transactions d) it)) (items d))"
  by (simp add: itemsWithUsage_def fold_usageReducer)

lemma fold_cost:
  "fold (\<lambda>row acc. acc + snd row * (case unitCost (fst row) of None \<Rightarrow> 0 | Some c \<Rightarrow> c)) rows a =
     a + (\<Sum>row\<leftarrow>rows. snd row * costOf (fst row))"
  by (induction rows arbitrary: a) (simp_all add: costOf_def add.assoc)

lemma totalCost_sum: "totalCost rows = (\<Sum>row\<leftarrow>rows. snd row * costOf (fst row))"
  by (simp add: totalCost_def fold_cost)

lemma sorted_descending:
  "sorted_wrt (\<lambda>p q. snd q \<le> snd p) (sort_key (\<lambda>p. - snd p) (rows :: (item \<times> real) list))"
proof -
  have "sorted (map (\<lambda>p. - snd p) (sort_key (\<lambda>p. - snd p) rows))" by (rule sorted_sort_key)
  then show ?thesis by (simp add: sorted_map)
qed

text \<open>
  Claim C7. The report pairs every item with its used quantity: the sum of the quantities
  of the item's transactions of type use whose year is the selected year (and, in monthly
  mode, whose month is the selected month) and one of whose branch fields is the branch.
  The rows are in descending order of used quantity, and the total cost is the sum over
  the items of used quantity times unit cost.
\<close>

theorem report_spec:
  "mset (itemsWithUsage H d b rangeType year month) =
     mset (map (\<lambda>it. (it, usedQtyOf H b rangeType year month (transactions d) it)) (items d))
   \<and> sorted_wrt (\<lambda>p q. snd q \<le> snd p) (itemsWithUsage H d b rangeType year month)
   \<and> totalCost (itemsWithUsage H d b rangeType year month) =
       (\<Sum>it\<leftarrow>items d. usedQtyOf H b rangeType year month (transactions d) it * costOf it)
   \<and> map (\<lambda>p. (i_id (fst p), snd p)) (itemsWithUsage utcDate reportDb ''A'' ''monthly'' 2024 3)
       = [(''i2'', 14), (''i1'', 10)]
   \<and> totalCost (itemsWithUsage utcDate reportDb ''A'' ''monthly'' 2024 3) = 2400
   \<and> map (\<lambda>p. (i_id (fst p), snd p)) (itemsWithUsage utcDate reportDb ''A'' ''yearly'' 2024 3)
       = [(''i1'', 15), (''i2'', 14)]
   \<and> totalCost (itemsWithUsage utcDate reportDb ''A'' ''yearly'' 2024 3) = 2550"
proof -
  let ?rows = "map (\<lambda>it. (it, usedQtyOf H b rangeType year month (transactions d) it)) (items d)"
  have m: "mset (itemsWithUsage H d b rangeType year month) = mset ?rows"
    by (simp only: itemsWithUsage_eq mset_sort)
  have s: "sorted_wrt (\<lambda>p q. snd q \<le> snd p) (itemsWithUsage H d b rangeType year month)"
    by (simp only: itemsWithUsage_eq sorted_descending)
  have "totalCost (itemsWithUsage H d b rangeType year month) = (\<Sum>row\<leftarrow>?rows. snd row * costOf (fst row))"
    unfolding totalCost_sum by (rule sum_list_mset_cong [OF m])
  also have "\<dots> = (\<Sum>it\<leftarrow>items d. usedQtyOf H b rangeType year month (transactions d) it * costOf it)"
    by (simp add: comp_def)
  finally have c: "totalCost (itemsWithUsage H d b rangeType year month) =
       (\<Sum>it\<leftarrow>items d. usedQtyOf H b rangeType year month (transactions d) it * costOf it)" .
  have i: "items reportDb = [itemEx (Some 2), porkEx]" by (simp add: reportDb_def)
  have u: "usedQtyOf utcDate ''A'' ''monthly'' 2024 3 (transactions reportDb) (itemEx (Some 2)) = 10"
    "usedQtyOf utcDate ''A'' ''monthly'' 2024 3 (transactions reportDb) porkEx = 14"
    "usedQtyOf utcDate ''A'' ''yearly'' 2024 3 (transactions reportDb) (itemEx (Some 2)) = 15"
    "usedQtyOf utcDate ''A'' ''yearly'' 2024 3 (transactions reportDb) porkEx = 14"
    by code_simp+
  have r1: "itemsWithUsage utcDate reportDb ''A'' ''monthly'' 2024 3 = [(porkEx, 14), (itemEx (Some 2), 10)]"
    by (simp add: itemsWithUsage_eq i u)
  have r2: "itemsWithUsage utcDate reportDb ''A'' ''yearly'' 2024 3 = [(itemEx (Some 2), 15), (porkEx, 14)]"
    by (simp add: itemsWithUsage_eq i u)
  have e1: "map (\<lambda>p. (i_id (fst p), snd p)) (itemsWithUsage utcDate reportDb ''A'' ''monthly'' 2024 3)
       = [(''i2'', 14), (''i1'', 10)]"
    by (simp add: r1 itemEx_def porkEx_def)
  have e2: "totalCost (itemsWithUsage utcDate reportDb ''A'' ''monthly'' 2024 3) = 2400"
    by (simp add: r1 totalCost_def itemEx_def porkEx_def)
  have e3: "map (\<lambda>p. (i_id (fst p), snd p)) (itemsWithUsage utcDate reportDb ''A'' ''yearly'' 2024 3)
       = [(''i1'', 15), (''i2'', 14)]"
    by (simp add: r2 itemEx_def porkEx_def)
  have e4: "totalCost (itemsWithUsage utcDate reportDb ''A'' ''yearly'' 2024 3) = 2550"
    by (simp add: r2 totalCost_def itemEx_def porkEx_def)
  from m s c e1 e2 e3 e4 show ?thesis by (intro conjI)
qed

section \<open>Properties of binary64 rounding\<close>

lemma bitLength_le: "n < 2 ^ m \<Longrightarrow> bitLength n \<le> m"
proof (induction m arbitrary: n)
  case 0
  then show ?case by (simp add: bitLength.simps)
next
  case (Suc m)
  show ?case
  proof (cases "n = 0")
    case True
    then show ?thesis by (simp add: bitLength.simps)
  next
    case False
    have "n div 2 < 2 ^ m" using Suc.prems by simp
    then have "bitLength (n div 2) \<le> m" by (rule Suc.IH)
    with False show ?thesis by (subst bitLength.simps) simp
  qed
qed

lemma bitLength_pos: "0 < n \<Longrightarrow> 0 < bitLength n"
  by (subst bitLength.simps) simp

lemma roundEven_of_int: "roundEven (of_int j) = j"
  by (simp add: roundEven_def)

lemma pow2_nonpos: "e \<le> 0 \<Longrightarrow> pow2 e = 1 / 2 ^ nat (- e)"
  by (cases "e = 0") (simp_all add: pow2_def)

lemma fl_of_int:
  assumes "\<bar>k\<bar> < 2 ^ 53"
  shows "fl (of_int k) = Fin (of_int k)"
proof (cases "k = 0")
  case True
  then show ?thesis by (simp add: fl_def)
next
  case False
  define L where "L = bitLength (nat \<bar>k\<bar>)"
  have n: "nat \<bar>k\<bar> < 2 ^ 53" using assms by (simp add: nat_less_iff)
  have L53: "L \<le> 53" unfolding L_def using n by (rule bitLength_le)
  have L1: "0 < L" unfolding L_def using False by (intro bitLength_pos) simp
  have "1 \<le> \<bar>k\<bar>" using False by arith
  then have "real_of_int 1 \<le> real_of_int \<bar>k\<bar>" by (simp only: of_int_le_iff)
  then have one: "1 \<le> \<bar>real_of_int k\<bar>" by simp
  have e: "ilog2 (of_int k) = int L - 1"
    using one by (simp add: ilog2_def L_def flip: of_int_abs)
  have m: "max (int L - 1) (- 1022) = int L - 1" using L1 by simp
  define n where "n = 53 - L"
  have q: "pow2 (int L - 53) = 1 / 2 ^ n"
    using L53 by (simp add: pow2_nonpos n_def nat_diff_distrib)
  have "real_of_int k * 2 ^ n = real_of_int (k * 2 ^ n)" by simp
  then have "roundEven (real_of_int k * 2 ^ n) = k * 2 ^ n" by (simp only: roundEven_of_int)
  then have r: "real_of_int (roundEven (real_of_int k / (1 / 2 ^ n))) * (1 / 2 ^ n) = real_of_int k"
    by simp
  have o: "\<not> 1024 \<le> ilog2 (real_of_int k)" using e L53 by simp
  have "fl (real_of_int k) =
      (if 1024 \<le> ilog2 (real_of_int (roundEven (real_of_int k / (1 / 2 ^ n))) * (1 / 2 ^ n))
       then (if 0 < real_of_int k then PosInf else NegInf)
       else Fin (real_of_int (roundEven (real_of_int k / (1 / 2 ^ n))) * (1 / 2 ^ n)))"
    using False by (simp add: fl_def e m q Let_def)
  then show ?thesis by (simp only: r o if_False)
qed

lemma bitLength_bounds:
  "0 < n \<Longrightarrow> 2 ^ (bitLength n - 1) \<le> n \<and> n < 2 ^ bitLength n"
proof (induction n rule: bitLength.induct)
  case (1 n)
  show ?case
  proof (cases "n div 2 = 0")
    case True
    with 1(2) have "n = 1" by (auto simp: div_eq_0_iff)
    then show ?thesis by (simp add: bitLength.simps)
  next
    case False
    then have ih: "2 ^ (bitLength (n div 2) - 1) \<le> n div 2 \<and> n div 2 < 2 ^ bitLength (n div 2)"
      using 1 by simp
    have p: "0 < bitLength (n div 2)" using False by (intro bitLength_pos) simp
    have b: "bitLength n = Suc (bitLength (n div 2))" using 1(2) by (subst bitLength.simps) simp
    have "2 ^ (bitLength n - 1) = 2 * 2 ^ (bitLength (n div 2) - 1)"
      using p by (simp add: b flip: power_Suc)
    also have "\<dots> \<le> 2 * (n div 2)" using ih by simp
    also have "\<dots> \<le> n" by simp
    finally have lo: "2 ^ (bitLength n - 1) \<le> n" .
    have "n < 2 * (n div 2) + 2" by presburger
    also have "\<dots> \<le> 2 * 2 ^ bitLength (n div 2)" using ih by simp
    finally have hi: "n < 2 ^ bitLength n" by (simp add: b)
    from lo hi show ?thesis ..
  qed
qed

lemma ilog2_bounds:
  assumes "x \<noteq> 0"
  shows "pow2 (ilog2 x) \<le> \<bar>x\<bar> \<and> \<bar>x\<bar> < pow2 (ilog2 x + 1)"
proof (cases "1 \<le> \<bar>x\<bar>")
  case True
  define n where "n = nat \<lfloor>\<bar>x\<bar>\<rfloor>"
  define L where "L = bitLength n"
  have f1: "1 \<le> \<lfloor>\<bar>x\<bar>\<rfloor>" using True by simp
  then have n0: "0 < n" unfolding n_def by arith
  have "0 \<le> \<lfloor>\<bar>x\<bar>\<rfloor>" using f1 by arith
  then have rn: "real n = of_int \<lfloor>\<bar>x\<bar>\<rfloor>" unfolding n_def by (rule of_nat_nat)
  have nle: "real n \<le> \<bar>x\<bar>" unfolding rn by (rule of_int_floor_le)
  have xlt: "\<bar>x\<bar> < real n + 1" unfolding rn by linarith
  note bb = bitLength_bounds [OF n0, folded L_def]
  have L0: "0 < L" unfolding L_def using n0 by (rule bitLength_pos)
  have e: "ilog2 x = int L - 1" using True by (simp add: ilog2_def n_def L_def)
  have p1: "pow2 (int L - 1) = 2 ^ (L - 1)" using L0 by (simp add: pow2_def nat_diff_distrib)
  have p2: "pow2 (int L - 1 + 1) = 2 ^ L" by (simp add: pow2_def)
  have "real (2 ^ (L - 1)) \<le> real n" using bb by (simp only: of_nat_le_iff)
  then have "(2::real) ^ (L - 1) \<le> real n" by (simp only: of_nat_power of_nat_numeral)
  then have lo: "(2::real) ^ (L - 1) \<le> \<bar>x\<bar>" using nle by linarith
  have "n + 1 \<le> 2 ^ L" using bb by simp
  then have "real (n + 1) \<le> real (2 ^ L)" by (simp only: of_nat_le_iff)
  then have "real n + 1 \<le> (2::real) ^ L" by (simp only: of_nat_power of_nat_numeral of_nat_add of_nat_1)
  then have hi: "\<bar>x\<bar> < (2::real) ^ L" using xlt by linarith
  show ?thesis unfolding e p1 p2 using lo hi ..
next
  case False
  define y where "y = 1 / \<bar>x\<bar>"
  define m where "m = nat \<lceil>y\<rceil>"
  define K where "K = bitLength (m - 1)"
  have xp: "0 < \<bar>x\<bar>" using assms by simp
  have y1: "1 < y" using False xp by (simp add: y_def)
  then have c2: "2 \<le> \<lceil>y\<rceil>" by linarith
  then have m2: "2 \<le> m" unfolding m_def by arith
  have "0 \<le> \<lceil>y\<rceil>" using c2 by arith
  then have rm: "real m = of_int \<lceil>y\<rceil>" unfolding m_def by (rule of_nat_nat)
  have yle: "y \<le> real m" unfolding rm by (rule le_of_int_ceiling)
  have ylt: "real m - 1 < y" unfolding rm by linarith
  have m0: "0 < m - 1" using m2 by simp
  note bb = bitLength_bounds [OF m0, folded K_def]
  have K0: "0 < K" unfolding K_def using m0 by (rule bitLength_pos)
  have e: "ilog2 x = - int K" using False by (simp add: ilog2_def y_def m_def K_def)
  have p1: "pow2 (- int K) = 1 / 2 ^ K" by (simp add: pow2_nonpos)
  have p2: "pow2 (- int K + 1) = 1 / 2 ^ (K - 1)"
    using K0 by (simp add: pow2_nonpos nat_diff_distrib)
  have "m \<le> 2 ^ K" using bb m2 by linarith
  then have "real m \<le> real (2 ^ K)" by (simp only: of_nat_le_iff)
  then have "real m \<le> (2::real) ^ K" by (simp only: of_nat_power of_nat_numeral)
  then have "y \<le> 2 ^ K" using yle by linarith
  then have lo: "1 / 2 ^ K \<le> \<bar>x\<bar>" using xp by (simp add: y_def field_simps)
  have "real (2 ^ (K - 1)) \<le> real (m - 1)" using bb by (simp only: of_nat_le_iff)
  then have "(2::real) ^ (K - 1) \<le> real (m - 1)" by (simp only: of_nat_power of_nat_numeral)
  moreover have "real (m - 1) = real m - 1" using m2 by (simp add: of_nat_diff)
  ultimately have "(2::real) ^ (K - 1) < y" using ylt by linarith
  then have hi: "\<bar>x\<bar> < 1 / 2 ^ (K - 1)" using xp by (simp add: y_def field_simps)
  show ?thesis unfolding e p1 p2 using lo hi ..
qed

lemma pow2_pos: "0 < pow2 e"
  by (simp add: pow2_def)

lemma roundEven_near: "\<bar>real_of_int (roundEven y) - y\<bar> \<le> 1 / 2"
proof -
  have "real_of_int \<lfloor>y\<rfloor> \<le> y" and "y < real_of_int \<lfloor>y\<rfloor> + 1" by linarith+
  then show ?thesis by (auto simp add: roundEven_def Let_def)
qed

lemma fl_nearest:
  assumes "fl x = Fin r"
  shows "\<bar>r - x\<bar> \<le> pow2 (max (ilog2 x) (- 1022) - 52) / 2"
proof (cases "x = 0")
  case True
  with assms show ?thesis using pow2_pos [of "max (ilog2 0) (- 1022) - 52"] by (simp add: fl_def)
next
  case False
  define q where "q = pow2 (max (ilog2 x) (- 1022) - 52)"
  have qp: "0 < q" unfolding q_def by (rule pow2_pos)
  have r: "r = real_of_int (roundEven (x / q)) * q"
    using assms False by (simp add: fl_def Let_def q_def split: if_splits)
  have "r - x = (real_of_int (roundEven (x / q)) - x / q) * q"
    using qp by (simp add: r algebra_simps)
  then have "\<bar>r - x\<bar> = \<bar>real_of_int (roundEven (x / q)) - x / q\<bar> * q"
    using qp by (simp add: abs_mult)
  also have "\<dots> \<le> 1 / 2 * q"
    using roundEven_near [of "x / q"] qp by (intro mult_right_mono) auto
  finally show ?thesis by (simp add: q_def)
qed

lemma whole_of_int: "whole (of_int k)"
  by (simp add: whole_def)

lemma whole_obtain: "whole x \<Longrightarrow> \<exists>k::int. x = of_int k"
  unfolding whole_def by blast

lemma fl_whole: "whole x \<Longrightarrow> \<bar>x\<bar> < 2 ^ 53 \<Longrightarrow> fl x = Fin x"
proof -
  assume "whole x" and b: "\<bar>x\<bar> < 2 ^ 53"
  then obtain k :: int where k: "x = of_int k" using whole_obtain by blast
  from b have "real_of_int \<bar>k\<bar> < real_of_int (2 ^ 53)" unfolding k by simp
  then have "\<bar>k\<bar> < 2 ^ 53" by (simp only: of_int_less_iff)
  then show ?thesis unfolding k by (rule fl_of_int)
qed

lemma whole_add: "whole x \<Longrightarrow> whole y \<Longrightarrow> whole (x + y)"
proof -
  assume "whole x" "whole y"
  then obtain k l :: int where "x = of_int k" "y = of_int l" using whole_obtain by blast
  then have "x + y = of_int (k + l)" by simp
  then show ?thesis by (simp only: whole_of_int)
qed

lemma whole_minus: "whole x \<Longrightarrow> whole (- x)"
proof -
  assume "whole x"
  then obtain k :: int where "x = of_int k" using whole_obtain by blast
  then have "- x = of_int (- k)" by simp
  then show ?thesis by (simp only: whole_of_int)
qed

lemma whole_diff: "whole x \<Longrightarrow> whole y \<Longrightarrow> whole (x - y)"
  using whole_add [of x "- y"] whole_minus [of y] by simp

lemma jsAdd_whole:
  "whole x \<Longrightarrow> whole y \<Longrightarrow> \<bar>x + y\<bar> < 2 ^ 53 \<Longrightarrow> jsAdd (Fin x) (Fin y) = Fin (x + y)"
  by (simp add: fl_whole whole_add)

lemma jsSub_whole:
  "whole x \<Longrightarrow> whole y \<Longrightarrow> \<bar>x - y\<bar> < 2 ^ 53 \<Longrightarrow> jsSub (Fin x) (Fin y) = Fin (x - y)"
  by (simp add: jsSub_def jsNeg_def fl_whole whole_diff)

section \<open>The stock loop on binary64\<close>




lemma contribution_cases:
  "contribution b t = qty t \<or> contribution b t = - qty t \<or> contribution b t = 0"
  by (simp add: contribution_def)

lemma stockStep64_exact:
  assumes "whole s" and "whole (qty t)" and "\<bar>s\<bar> + \<bar>qty t\<bar> < 2 ^ 53"
  shows "stockStep64 b i t (Fin s) = Fin (stockStep b i t s)"
    and "whole (stockStep b i t s)"
    and "\<bar>stockStep b i t s\<bar> \<le> \<bar>s\<bar> + \<bar>qty t\<bar>"
proof -
  have a: "jsAdd (Fin s) (Fin (qty t)) = Fin (s + qty t)"
    using assms by (intro jsAdd_whole) auto
  have m: "jsSub (Fin s) (Fin (qty t)) = Fin (s - qty t)"
    using assms by (intro jsSub_whole) auto
  have "jsSub (Fin (s + qty t)) (Fin (qty t)) = Fin (s + qty t - qty t)"
    using assms by (intro jsSub_whole whole_add) auto
  then have am: "jsSub (Fin (s + qty t)) (Fin (qty t)) = Fin s" by simp
  have a': "fl (s + qty t) = Fin (s + qty t)" using a by simp
  show "stockStep64 b i t (Fin s) = Fin (stockStep b i t s)"
    by (simp add: stockStep64_def stockStep_def Let_def a' m am)
  have c: "stockStep b i t s = s + (if itemId t = i then contribution b t else 0)"
    by (rule stockStep_add)
  show "whole (stockStep b i t s)"
    using assms(1,2) contribution_cases [of b t] whole_add [of s "qty t"] whole_diff [of s "qty t"]
    by (auto simp add: c)
  show "\<bar>stockStep b i t s\<bar> \<le> \<bar>s\<bar> + \<bar>qty t\<bar>"
    using contribution_cases [of b t] by (auto simp add: c)
qed

lemma fold_stockStep64_exact:
  assumes "list_all (\<lambda>t. whole (qty t)) txs" and "whole s"
    and "\<bar>s\<bar> + (\<Sum>t\<leftarrow>txs. \<bar>qty t\<bar>) < 2 ^ 53"
  shows "fold (stockStep64 b i) txs (Fin s) = Fin (fold (stockStep b i) txs s)
       \<and> whole (fold (stockStep b i) txs s)
       \<and> \<bar>fold (stockStep b i) txs s\<bar> \<le> \<bar>s\<bar> + (\<Sum>t\<leftarrow>txs. \<bar>qty t\<bar>)"
  using assms
proof (induction txs arbitrary: s)
  case Nil
  then show ?case by simp
next
  case (Cons t txs)
  have wt: "whole (qty t)" and wr: "list_all (\<lambda>t. whole (qty t)) txs"
    using Cons.prems(1) by simp_all
  have nn: "0 \<le> (\<Sum>t\<leftarrow>txs. \<bar>qty t\<bar>)" by (rule sum_list_nonneg) auto
  have b1: "\<bar>s\<bar> + \<bar>qty t\<bar> < 2 ^ 53" using Cons.prems(3) nn by simp
  note st = stockStep64_exact [OF Cons.prems(2) wt b1, of b i]
  have b2: "\<bar>stockStep b i t s\<bar> + (\<Sum>t\<leftarrow>txs. \<bar>qty t\<bar>) < 2 ^ 53"
    using st(3) Cons.prems(3) by simp
  note ih = Cons.IH [OF wr st(2) b2]
  have e: "fold (stockStep64 b i) (t # txs) (Fin s) = fold (stockStep64 b i) txs (Fin (stockStep b i t s))"
    using st(1) by simp
  have f: "fold (stockStep b i) (t # txs) s = fold (stockStep b i) txs (stockStep b i t s)"
    by simp
  have "\<bar>fold (stockStep b i) txs (stockStep b i t s)\<bar> \<le> \<bar>s\<bar> + (\<Sum>t\<leftarrow>t # txs. \<bar>qty t\<bar>)"
    using ih st(3) by simp
  with ih show ?case unfolding e f by blast
qed

lemma stockLoop64_exact:
  assumes "list_all (\<lambda>t. whole (qty t)) txs" and "(\<Sum>t\<leftarrow>txs. \<bar>qty t\<bar>) < 2 ^ 53"
  shows "stockLoop64 txs b i = Fin (stockLoop txs b i)"
    and "whole (stockLoop txs b i)"
    and "\<bar>stockLoop txs b i\<bar> \<le> (\<Sum>t\<leftarrow>txs. \<bar>qty t\<bar>)"
  using fold_stockStep64_exact [OF assms(1), of 0 b i] assms(2)
  by (simp_all add: stockLoop64_def stockLoop_def whole_def)

lemma round2_whole:
  assumes "whole x" and "\<bar>x\<bar> * 100 < 2 ^ 53"
  shows "jsDiv (mathRound64 (jsMul (Fin x) (Fin 100))) (Fin 100) = Fin x"
proof -
  obtain k :: int where k: "x = of_int k" using assms(1) whole_obtain by blast
  have h: "x * 100 = of_int (k * 100)" by (simp add: k)
  have w: "whole (x * 100)" unfolding h by (rule whole_of_int)
  have b: "\<bar>x * 100\<bar> < 2 ^ 53" using assms(2) by (simp add: abs_mult)
  have b': "\<bar>x\<bar> < 2 ^ 53" using assms(2) by simp
  have 1: "jsMul (Fin x) (Fin 100) = Fin (x * 100)" using w b by (simp add: fl_whole)
  have 2: "mathRound64 (Fin (x * 100)) = Fin (x * 100)"
    unfolding h by (simp only: mathRound64_def jsnum.case mathRound_of_int)
  have 3: "jsDiv (Fin (x * 100)) (Fin 100) = Fin x" using assms(1) b' by (simp add: fl_whole)
  show ?thesis by (simp only: 1 2 3)
qed

lemma getCurrentStock64_whole:
  assumes "list_all (\<lambda>t. whole (qty t)) (transactions d)"
    and "(\<Sum>t\<leftarrow>transactions d. \<bar>qty t\<bar>) * 100 < 2 ^ 53"
  shows "getCurrentStock64 d b i = Fin (max 0 (stockLoop (transactions d) b i))"
proof -
  have nn: "0 \<le> (\<Sum>t\<leftarrow>transactions d. \<bar>qty t\<bar>)" by (rule sum_list_nonneg) auto
  have s': "(\<Sum>t\<leftarrow>transactions d. \<bar>qty t\<bar>) < 2 ^ 53" using assms(2) nn by simp
  note ex = stockLoop64_exact [OF assms(1) s', of b i]
  have "\<bar>stockLoop (transactions d) b i\<bar> * 100 < 2 ^ 53" using ex(3) assms(2) by simp
  then have "jsDiv (mathRound64 (jsMul (Fin (stockLoop (transactions d) b i)) (Fin 100))) (Fin 100)
      = Fin (stockLoop (transactions d) b i)"
    using ex(2) by (intro round2_whole)
  then show ?thesis by (simp add: getCurrentStock64_def ex(1) mathMax0_def)
qed



text \<open>
  Claim C8 as stated fails: binary64 addition is not associative. Receives of 0.001, 0.01
  and 0.044 give 0.05 in this order and 0.06 in the reverse order.
\<close>

theorem getCurrentStock64_order_counterexample:
  "mset (transactions tieDb) = mset (transactions tieDbRev)
   \<and> getCurrentStock64 tieDb ''A'' ''i1'' = fl (5 / 100)
   \<and> getCurrentStock64 tieDbRev ''A'' ''i1'' = fl (6 / 100)
   \<and> getCurrentStock64 tieDb ''A'' ''i1'' \<noteq> getCurrentStock64 tieDbRev ''A'' ''i1''"
proof -
  have m: "mset (transactions tieDb) = mset (transactions tieDbRev)"
    by (simp add: tieDb_def tieDbRev_def)
  have a: "getCurrentStock64 tieDb ''A'' ''i1'' = Fin (3602879701896397 / 72057594037927936)"
    by code_simp
  have b: "getCurrentStock64 tieDbRev ''A'' ''i1'' = Fin (1080863910568919 / 18014398509481984)"
    by code_simp
  have a': "fl (5 / 100) = Fin (3602879701896397 / 72057594037927936)" by code_simp
  have b': "fl (6 / 100) = Fin (1080863910568919 / 18014398509481984)" by code_simp
  have a2: "getCurrentStock64 tieDb ''A'' ''i1'' = fl (5 / 100)" by (simp only: a a')
  have b2: "getCurrentStock64 tieDbRev ''A'' ''i1'' = fl (6 / 100)" by (simp only: b b')
  have ne: "getCurrentStock64 tieDb ''A'' ''i1'' \<noteq> getCurrentStock64 tieDbRev ''A'' ''i1''"
    by (simp add: a b)
  from m a2 b2 ne show ?thesis by (intro conjI)
qed

text \<open>
  Claim C8, amended. When the quantities are whole numbers whose magnitudes add up to
  less than \<open>2^53\<close>, every sum of the loop is exact and \<^verbatim>\<open>getCurrentStock\<close> returns the
  same value on two ledgers that are permutations of each other.
\<close>

theorem getCurrentStock64_perm_whole:
  assumes "mset (transactions d1) = mset (transactions d2)"
    and "list_all (\<lambda>t. whole (qty t)) (transactions d1)"
    and "(\<Sum>t\<leftarrow>transactions d1. \<bar>qty t\<bar>) < 2 ^ 53"
  shows "getCurrentStock64 d1 b i = getCurrentStock64 d2 b i"
proof -
  have "set (transactions d1) = set (transactions d2)" using assms(1) by (rule mset_eq_setD)
  then have w2: "list_all (\<lambda>t. whole (qty t)) (transactions d2)"
    using assms(2) by (simp add: list_all_iff)
  have "(\<Sum>t\<leftarrow>transactions d1. \<bar>qty t\<bar>) = (\<Sum>t\<leftarrow>transactions d2. \<bar>qty t\<bar>)"
    using assms(1) by (rule sum_list_mset_cong)
  then have s2: "(\<Sum>t\<leftarrow>transactions d2. \<bar>qty t\<bar>) < 2 ^ 53" using assms(3) by simp
  have "stockLoop (transactions d1) b i = stockLoop (transactions d2) b i"
    unfolding stockLoop_sum using assms(1) by (rule sum_list_mset_cong)
  then have "stockLoop64 (transactions d1) b i = stockLoop64 (transactions d2) b i"
    using stockLoop64_exact(1) [OF assms(2,3), of b i] stockLoop64_exact(1) [OF w2 s2, of b i]
    by simp
  then show ?thesis by (simp add: getCurrentStock64_def)
qed

theorem getCurrentStock64_perm_whole_witness:
  "mset (transactions scenario2) = mset (transactions scenario2rev)
   \<and> transactions scenario2 \<noteq> transactions scenario2rev
   \<and> list_all (\<lambda>t. whole (qty t)) (transactions scenario2)
   \<and> (\<Sum>t\<leftarrow>transactions scenario2. \<bar>qty t\<bar>) < 2 ^ 53
   \<and> getCurrentStock64 scenario2 ''A'' ''i1'' = getCurrentStock64 scenario2rev ''A'' ''i1''"
proof -
  have h: "mset (transactions scenario2) = mset (transactions scenario2rev)"
    by (simp add: scenario2rev_def)
  have n: "transactions scenario2 \<noteq> transactions scenario2rev"
    by (simp add: scenario2rev_def scenario2_def exTx_def)
  have w: "list_all (\<lambda>t. whole (qty t)) (transactions scenario2)"
    by (simp add: scenario2_def emptyDb_def exTx_def whole_def)
  have s: "(\<Sum>t\<leftarrow>transactions scenario2. \<bar>qty t\<bar>) < 2 ^ 53"
    by (simp add: scenario2_def emptyDb_def exTx_def)
  from h n w s getCurrentStock64_perm_whole [OF h w s, of "''A''" "''i1''"]
  show ?thesis by (intro conjI)
qed

section \<open>Suggested order\<close>

lemma suggestedOrderQty_found:
  assumes "find (\<lambda>it. i_id it = i) (items d) = Some item"
  shows "suggestedOrderQty H now d b i =
     orderFormula (orZero (avgUsageForItem64 H now d b i 30))
       (case leadTime item of None \<Rightarrow> 2 | Some l \<Rightarrow> if l = 0 then 2 else l)
       (getCurrentStock64 d b i)"
  using assms by (simp add: suggestedOrderQty_def orderFormula_def Let_def)

lemma items_frame:
  "avgUsageForItem64 H now (d\<lparr>items := its\<rparr>) b i n = avgUsageForItem64 H now d b i n"
  "getCurrentStock64 (d\<lparr>items := its\<rparr>) b i = getCurrentStock64 d b i"
  by (simp_all add: avgUsageForItem64_def getCurrentStock64_def)

lemma suggestedOrderQty_single:
  assumes "i_id item = i"
  shows "suggestedOrderQty H now (d\<lparr>items := [item\<lparr>leadTime := lt\<rparr>]\<rparr>) b i =
     orderFormula (orZero (avgUsageForItem64 H now d b i 30))
       (case lt of None \<Rightarrow> 2 | Some l \<Rightarrow> if l = 0 then 2 else l)
       (getCurrentStock64 d b i)"
proof -
  have "find (\<lambda>it. i_id it = i) (items (d\<lparr>items := [item\<lparr>leadTime := lt\<rparr>]\<rparr>))
      = Some (item\<lparr>leadTime := lt\<rparr>)"
    using assms by simp
  then show ?thesis
    using suggestedOrderQty_found [of i "d\<lparr>items := [item\<lparr>leadTime := lt\<rparr>]\<rparr>" "item\<lparr>leadTime := lt\<rparr>" H now b]
    by (simp add: items_frame)
qed

lemma usageStep64_fst:
  "fst (usageStep64 H cutoff b i t acc) =
     (if t_type t = ''use'' \<and> branchId t = Some b \<and> itemId t = i
         \<and> (case parseDate H (date t) of None \<Rightarrow> False | Some dt \<Rightarrow> cutoff \<le> dt)
      then jsAdd (fst acc) (Fin (qty t)) else fst acc)"
  by (simp add: usageStep64_def split: option.split)

lemma usageStep64_snd:
  "snd (usageStep64 H cutoff b i t acc) =
     snd acc \<union> (if t_type t = ''use'' \<and> branchId t = Some b \<and> itemId t = i
                   \<and> (case parseDate H (date t) of None \<Rightarrow> False | Some dt \<Rightarrow> cutoff \<le> dt)
                then {take 10 (date t)} else {})"
  by (simp add: usageStep64_def split: option.split)

lemma fold_usageStep64:
  "fold (usageStep64 H (setDate H now (getDate H now - rangeDays)) b i) txs acc =
     (foldl jsAdd (fst acc) (map Fin (map qty (usageWindow H now rangeDays b i txs))),
      snd acc \<union> set (map (\<lambda>t. take 10 (date t)) (usageWindow H now rangeDays b i txs)))"
proof (induction txs arbitrary: acc)
  case Nil
  show ?case by (simp add: usageWindow_def)
next
  case (Cons t txs)
  show ?case
    by (simp add: Cons.IH usageStep64_fst usageStep64_snd usageWindow_def Un_assoc)
qed

lemma avgUsageForItem64_eq:
  "avgUsageForItem64 H now d b i rangeDays =
     jsDiv (foldl jsAdd (Fin 0) (map Fin (map qty (usageWindow H now rangeDays b i (transactions d)))))
       (Fin (if activeDays (usageWindow H now rangeDays b i (transactions d)) \<noteq> 0
             then real (activeDays (usageWindow H now rangeDays b i (transactions d)))
             else of_int rangeDays))"
  by (simp add: avgUsageForItem64_def fold_usageStep64 activeDays_def Let_def)

lemma window_values:
  "map qty (usageWindow utcDate nowEx 30 ''A'' ''i1'' usesEx) = [10, 4, 6]"
  "activeDays (usageWindow utcDate nowEx 30 ''A'' ''i1'' usesEx) = 2"
  "map qty (usageWindow utcDate nowEx 30 ''A'' ''i1'' (receiveEx 125 # usesEx)) = [10, 4, 6]"
  "activeDays (usageWindow utcDate nowEx 30 ''A'' ''i1'' (receiveEx 125 # usesEx)) = 2"
  "map qty (usageWindow utcDate nowEx 30 ''A'' ''i1'' (receiveEx 145 # usesEx)) = [10, 4, 6]"
  "activeDays (usageWindow utcDate nowEx 30 ''A'' ''i1'' (receiveEx 145 # usesEx)) = 2"
  "map qty (usageWindow utcDate nowEx 30 ''A'' ''i1'' threeDays) = [2, 2, 1]"
  "activeDays (usageWindow utcDate nowEx 30 ''A'' ''i1'' threeDays) = 3"
  "map qty (usageWindow utcDate nowEx 30 ''A'' ''i1'' fracTxs) = [3, 2, 2]"
  "activeDays (usageWindow utcDate nowEx 30 ''A'' ''i1'' fracTxs) = 3"
  by code_simp+

lemma avgEx_values:
  "avgUsageForItem64 utcDate nowEx (orderDb usesEx lt) ''A'' ''i1'' 30 = Fin 10"
  "avgUsageForItem64 utcDate nowEx (orderDb (receiveEx 125 # usesEx) lt) ''A'' ''i1'' 30 = Fin 10"
  "avgUsageForItem64 utcDate nowEx (orderDb (receiveEx 145 # usesEx) lt) ''A'' ''i1'' 30 = Fin 10"
  "avgUsageForItem64 utcDate nowEx (orderDb threeDays lt) ''A'' ''i1'' 30 = fl (5 / 3)"
  "avgUsageForItem64 utcDate nowEx (orderDb fracTxs lt) ''A'' ''i1'' 30 = fl (7 / 3)"
  by (simp_all add: avgUsageForItem64_eq orderDb_def window_values fl_whole whole_def)

lemma stockEx_values:
  "getCurrentStock64 (orderDb usesEx lt) ''A'' ''i1'' = Fin 0"
  "getCurrentStock64 (orderDb (receiveEx 125 # usesEx) lt) ''A'' ''i1'' = Fin 5"
  "getCurrentStock64 (orderDb (receiveEx 145 # usesEx) lt) ''A'' ''i1'' = Fin 25"
  "getCurrentStock64 (orderDb threeDays lt) ''A'' ''i1'' = Fin 0"
proof -
  have w: "list_all (\<lambda>t. whole (qty t)) usesEx" "list_all (\<lambda>t. whole (qty t)) threeDays"
    "whole (qty (receiveEx 125))" "whole (qty (receiveEx 145))"
    by (simp_all add: usesEx_def threeDays_def receiveEx_def exTx_def whole_def)
  have s: "(\<Sum>t\<leftarrow>usesEx. \<bar>qty t\<bar>) = 170" "(\<Sum>t\<leftarrow>threeDays. \<bar>qty t\<bar>) = 5"
    "qty (receiveEx 125) = 125" "qty (receiveEx 145) = 145"
    by (simp_all add: usesEx_def threeDays_def receiveEx_def exTx_def)
  have l: "stockLoop usesEx ''A'' ''i1'' = - 120" "stockLoop threeDays ''A'' ''i1'' = - 5"
    "stockLoop (receiveEx 125 # usesEx) ''A'' ''i1'' = 5"
    "stockLoop (receiveEx 145 # usesEx) ''A'' ''i1'' = 25"
    by (simp_all add: stockLoop_def stockStep_def usesEx_def threeDays_def receiveEx_def exTx_def Let_def)
  show "getCurrentStock64 (orderDb usesEx lt) ''A'' ''i1'' = Fin 0"
    using getCurrentStock64_whole [of "orderDb usesEx lt" "''A''" "''i1''"] w s
    by (simp add: orderDb_def l)
  show "getCurrentStock64 (orderDb (receiveEx 125 # usesEx) lt) ''A'' ''i1'' = Fin 5"
    using getCurrentStock64_whole [of "orderDb (receiveEx 125 # usesEx) lt" "''A''" "''i1''"] w s
    by (simp add: orderDb_def l)
  show "getCurrentStock64 (orderDb (receiveEx 145 # usesEx) lt) ''A'' ''i1'' = Fin 25"
    using getCurrentStock64_whole [of "orderDb (receiveEx 145 # usesEx) lt" "''A''" "''i1''"] w s
    by (simp add: orderDb_def l)
  show "getCurrentStock64 (orderDb threeDays lt) ''A'' ''i1'' = Fin 0"
    using getCurrentStock64_whole [of "orderDb threeDays lt" "''A''" "''i1''"] w s
    by (simp add: orderDb_def l)
qed

lemma formula_values:
  "orderFormula (Fin 10) 0 (Fin 0) = Fin 0" "orderFormula (Fin 10) 2 (Fin 0) = Fin 24"
  "orderFormula (Fin 10) 2 (Fin 5) = Fin 19" "orderFormula (Fin 10) 2 (Fin 25) = Fin 0"
  "orderFormula (fl (5 / 3)) 7 (Fin 0) = Fin 15"
  by code_simp+

lemma orZero_values: "orZero (Fin 10) = Fin 10"
  by (simp add: orZero_def)

lemma orZero_fl: "orZero (fl x) = fl x"
  by (simp add: orZero_def fl_def Let_def)

lemma found_ex: "find (\<lambda>it. i_id it = ''i1'') (items (orderDb txs lt)) = Some (itemEx lt)"
  by (simp add: orderDb_def itemEx_def)

lemma orderEx_values:
  "suggestedOrderQty utcDate nowEx (orderDb usesEx (Some 0)) ''A'' ''i1'' = Fin 24"
  "suggestedOrderQty utcDate nowEx (orderDb usesEx None) ''A'' ''i1'' = Fin 24"
  "suggestedOrderQty utcDate nowEx (orderDb (receiveEx 125 # usesEx) (Some 2)) ''A'' ''i1'' = Fin 19"
  "suggestedOrderQty utcDate nowEx (orderDb (receiveEx 145 # usesEx) (Some 2)) ''A'' ''i1'' = Fin 0"
  "suggestedOrderQty utcDate nowEx (orderDb threeDays (Some 7)) ''A'' ''i1'' = Fin 15"
  by (simp_all add: suggestedOrderQty_found [OF found_ex] avgEx_values stockEx_values
      orZero_values orZero_fl formula_values itemEx_def)

text \<open>
  Claim C5. The suggested order is max(0, ceil(avgDaily * lead * 1.2 - currentStock)),
  with the 30-day average, the item's lead time (2 when unset), and 0 for an unknown
  item. The code departs from this for a stored lead time of 0, which it replaces by 2:
  with an average of 10 a day and no stock it suggests 24, where the expression with lead
  time 0 gives 0. On the other inputs shown the code gives the value of the expression: 19
  for an average of 10, lead time 2 and stock 5; 0 for stock 25; 15 for an average of 5/3
  and lead time 7; 0 for an unknown item.
\<close>

theorem suggestedOrderQty_zero_lead:
  "items (orderDb usesEx (Some 0)) = [itemEx (Some 0)]
   \<and> i_id (itemEx (Some 0)) = ''i1''
   \<and> leadTime (itemEx (Some 0)) = Some 0
   \<and> avgUsageForItem64 utcDate nowEx (orderDb usesEx (Some 0)) ''A'' ''i1'' 30 = Fin 10
   \<and> getCurrentStock64 (orderDb usesEx (Some 0)) ''A'' ''i1'' = Fin 0
   \<and> suggestedOrderQty utcDate nowEx (orderDb usesEx (Some 0)) ''A'' ''i1'' = Fin 24
   \<and> orderFormula (Fin 10) 0 (Fin 0) = Fin 0
   \<and> orderFormula (Fin 10) 2 (Fin 0) = Fin 24
   \<and> suggestedOrderQty utcDate nowEx (orderDb (receiveEx 125 # usesEx) (Some 2)) ''A'' ''i1'' = Fin 19
   \<and> orderFormula (Fin 10) 2 (Fin 5) = Fin 19
   \<and> suggestedOrderQty utcDate nowEx (orderDb (receiveEx 145 # usesEx) (Some 2)) ''A'' ''i1'' = Fin 0
   \<and> orderFormula (Fin 10) 2 (Fin 25) = Fin 0
   \<and> suggestedOrderQty utcDate nowEx (orderDb threeDays (Some 7)) ''A'' ''i1'' = Fin 15
   \<and> orderFormula (fl (5 / 3)) 7 (Fin 0) = Fin 15
   \<and> suggestedOrderQty utcDate nowEx (orderDb usesEx (Some 2)) ''A'' ''i9'' = Fin 0"
proof -
  have f: "items (orderDb usesEx (Some 0)) = [itemEx (Some 0)]"
    "i_id (itemEx (Some 0)) = ''i1''" "leadTime (itemEx (Some 0)) = Some 0"
    by (simp_all add: orderDb_def itemEx_def)
  have u: "suggestedOrderQty utcDate nowEx (orderDb usesEx (Some 2)) ''A'' ''i9'' = Fin 0"
    by (simp add: suggestedOrderQty_def orderDb_def itemEx_def)
  from f avgEx_values(1) stockEx_values(1) orderEx_values(1) formula_values(1,2)
    orderEx_values(3) formula_values(3) orderEx_values(4) formula_values(4)
    orderEx_values(5) formula_values(5) u
  show ?thesis by (intro conjI)
qed

text \<open>
  Claim C9. For an item whose stored lead time is exactly 0, \<^verbatim>\<open>suggestedOrderQty\<close>
  computes with lead time 2: zero is falsy in \<^verbatim>\<open>item.leadTime || 2\<close>. The suggestion is
  the one the same item would get with its lead time unset, or set to 2. Such an item can
  be given a positive suggestion: 24 for an average of 10 a day and no stock, and 6 for
  uses of 3, 2 and 2 on three days with 7.6 received.
\<close>

theorem zero_leadTime_uses_default:
  assumes "find (\<lambda>it. i_id it = i) (items d) = Some item" and "leadTime item = Some 0"
  shows "suggestedOrderQty H now d b i =
           orderFormula (orZero (avgUsageForItem64 H now d b i 30)) 2 (getCurrentStock64 d b i)
       \<and> suggestedOrderQty H now d b i =
           suggestedOrderQty H now (d\<lparr>items := [item\<lparr>leadTime := None\<rparr>]\<rparr>) b i
       \<and> suggestedOrderQty H now d b i =
           suggestedOrderQty H now (d\<lparr>items := [item\<lparr>leadTime := Some 2\<rparr>]\<rparr>) b i
       \<and> suggestedOrderQty utcDate nowEx (orderDb usesEx (Some 0)) ''A'' ''i1'' = Fin 24
       \<and> suggestedOrderQty utcDate nowEx (orderDb fracTxs (Some 0)) ''A'' ''i1'' = Fin 6"
proof -
  have id: "i_id item = i" using assms(1) by (auto simp add: find_Some_iff)
  have 1: "suggestedOrderQty H now d b i =
           orderFormula (orZero (avgUsageForItem64 H now d b i 30)) 2 (getCurrentStock64 d b i)"
    using suggestedOrderQty_found [OF assms(1), of H now b] by (simp add: assms(2))
  have 2: "suggestedOrderQty H now d b i =
           suggestedOrderQty H now (d\<lparr>items := [item\<lparr>leadTime := None\<rparr>]\<rparr>) b i"
    using suggestedOrderQty_single [OF id, where lt = None] by (simp add: 1)
  have 3: "suggestedOrderQty H now d b i =
           suggestedOrderQty H now (d\<lparr>items := [item\<lparr>leadTime := Some 2\<rparr>]\<rparr>) b i"
    using suggestedOrderQty_single [OF id, where lt = "Some 2"] by (simp add: 1)
  have g: "getCurrentStock64 (orderDb fracTxs (Some 0)) ''A'' ''i1'' = fl (6 / 10)"
    by code_simp
  have o: "orderFormula (fl (7 / 3)) 2 (fl (6 / 10)) = Fin 6" by code_simp
  have "suggestedOrderQty utcDate nowEx (orderDb fracTxs (Some 0)) ''A'' ''i1'' =
      orderFormula (fl (7 / 3)) 2 (getCurrentStock64 (orderDb fracTxs (Some 0)) ''A'' ''i1'')"
    by (simp add: suggestedOrderQty_found [OF found_ex] avgEx_values orZero_fl itemEx_def)
  then have e1: "suggestedOrderQty utcDate nowEx (orderDb fracTxs (Some 0)) ''A'' ''i1'' = Fin 6"
    by (simp only: g o)
  from 1 2 3 orderEx_values(1) e1 show ?thesis by (intro conjI)
qed

theorem zero_leadTime_uses_default_witness:
  "find (\<lambda>it. i_id it = ''i1'') (items (orderDb usesEx (Some 0))) = Some (itemEx (Some 0))
   \<and> leadTime (itemEx (Some 0)) = Some 0
   \<and> suggestedOrderQty utcDate nowEx (orderDb usesEx (Some 0)) ''A'' ''i1'' =
       orderFormula (orZero (avgUsageForItem64 utcDate nowEx (orderDb usesEx (Some 0)) ''A'' ''i1'' 30)) 2
         (getCurrentStock64 (orderDb usesEx (Some 0)) ''A'' ''i1'')
   \<and> suggestedOrderQty utcDate nowEx (orderDb usesEx (Some 0)) ''A'' ''i1'' =
       suggestedOrderQty utcDate nowEx (orderDb usesEx (Some 0)\<lparr>items := [itemEx (Some 0)\<lparr>leadTime := None\<rparr>]\<rparr>) ''A'' ''i1''"
proof -
  have f: "find (\<lambda>it. i_id it = ''i1'') (items (orderDb usesEx (Some 0))) = Some (itemEx (Some 0))"
    by (simp add: orderDb_def itemEx_def)
  have l: "leadTime (itemEx (Some 0)) = Some 0" by (simp add: itemEx_def)
  note t = zero_leadTime_uses_default [OF f l, of utcDate nowEx "''A''"]
  from f l t [THEN conjunct1] t [THEN conjunct2, THEN conjunct1] show ?thesis by (intro conjI)
qed

section \<open>Validation of appended transactions\<close>

text \<open>
  Claim C2. Appending a transaction is to fail, with the ledger unchanged, when the
  quantity is 0 or negative or when a transfer has equal source and destination. The code
  departs from this for the quantity of a transfer: \<^verbatim>\<open>createTransfer\<close> refuses equal
  branches, but it hands any quantity to \<^verbatim>\<open>addTransaction\<close>, which checks nothing. The
  form as it first shows (quantity 0) and a quantity of -4 are both recorded, while
  \<^verbatim>\<open>saveAll\<close> skips the zero and negative inputs of the daily table.
\<close>

theorem createTransfer_zero_qty:
  "f_qty zeroForm = 0 \<and> f_itemId zeroForm \<noteq> [] \<and> f_branchFrom zeroForm \<noteq> f_branchTo zeroForm
   \<and> fst (createTransfer zeroForm ''2024-01-02T12:00:00.000Z'' ''k3j9x2a'' emptyDb)
       = ''Transfer recorded. Recipient will see added stock.''
   \<and> map qty (transactions (snd (createTransfer zeroForm ''2024-01-02T12:00:00.000Z'' ''k3j9x2a'' emptyDb)))
       = [0]
   \<and> map qty (transactions (snd (createTransfer (zeroForm\<lparr>f_qty := - 4\<rparr>)
         ''2024-01-02T12:00:00.000Z'' ''k3j9x2a'' emptyDb))) = [- 4]
   \<and> createTransfer sameForm ''2024-01-02T12:00:00.000Z'' ''k3j9x2a'' emptyDb
       = (''From and To cannot be same'', emptyDb)
   \<and> map qty (transactions (saveAll ''A'' ''2024-01-02T12:00:00.000Z'' rndEx entriesEx emptyDb))
       = [7, 3 / 2]"
  by (simp add: createTransfer_def addTransaction_def saveAll_def saveEntry_def dailyTx_def
      zeroForm_def sameForm_def entriesEx_def emptyDb_def Let_def)

end
